theory Spec2Isabelle
  imports Main "HOL-Library.Sublist" "HOL-Library.Char_ord" "HOL-Library.List_Lexorder"
    "HOL-Library.AList"
begin

text \<open>
  The image validating webhook decides, for the pods submitted to a cluster, whether the
  images of their containers may run.  This theory embeds three parts of it: the legacy
  handler (\<open>DockerHandler\<close>, with its image parser and its signer-policy matcher), the
  reduction of notary metadata to a trust summary (package \<open>trust\<close>), and the validator
  of package \<open>pods\<close>.  What the cluster, the docker daemon and the notary server answer
  is given to the functions as data.
\<close>

section \<open>Go strings\<close>

text \<open>
  A Go string is a sequence of bytes, here a \<open>char list\<close>.  The functions of package
  \<open>strings\<close> that the handlers call are written out: \<open>Contains\<close>, \<open>LastIndex\<close>
  (which is \<open>-1\<close> when the separator does not occur), \<open>Split\<close> and \<open>TrimPrefix\<close>.
\<close>

fun Contains :: "string \<Rightarrow> string \<Rightarrow> bool" where
  "Contains [] substr = (substr = [])"
| "Contains (c # cs) substr = (prefix substr (c # cs) \<or> Contains cs substr)"

fun LastIndexFrom :: "nat \<Rightarrow> string \<Rightarrow> string \<Rightarrow> int" where
  "LastIndexFrom i [] substr = (if substr = [] then int i else -1)"
| "LastIndexFrom i (c # cs) substr =
     (let later = LastIndexFrom (Suc i) cs substr
      in if 0 \<le> later then later
         else if prefix substr (c # cs) then int i else -1)"

definition LastIndex :: "string \<Rightarrow> string \<Rightarrow> int" where
  "LastIndex s substr = LastIndexFrom 0 s substr"

function genSplit :: "string \<Rightarrow> string \<Rightarrow> string \<Rightarrow> string list" where
  "genSplit sep acc s =
     (if s = [] then [rev acc]
      else if sep \<noteq> [] \<and> prefix sep s
        then rev acc # genSplit sep [] (drop (length sep) s)
      else genSplit sep (hd s # acc) (tl s))"
  by pat_completeness auto
termination
  by (relation "measure (\<lambda>(sep, acc, s). length s)") auto

declare genSplit.simps [simp del]

text \<open>
  \<open>strings.Split\<close>: with an empty separator Go explodes the string (byte by byte on
  ASCII input); otherwise it cuts at every occurrence of the separator, left to right.
\<close>

definition Split :: "string \<Rightarrow> string \<Rightarrow> string list" where
  "Split s sep = (if sep = [] then map (\<lambda>c. [c]) s else genSplit sep [] s)"

definition TrimPrefix :: "string \<Rightarrow> string \<Rightarrow> string" where
  "TrimPrefix s pre = (if prefix pre s then drop (length pre) s else s)"

section \<open>The legacy handler: image references\<close>

record ImageInfo =
  registry :: string
  name :: string
  tag :: string

text \<open>
  \<open>getImageInfo\<close>: the slices \<open>image[:idx]\<close> and \<open>image[idx+1:]\<close> are \<open>take\<close> and
  \<open>drop\<close>; \<open>idx\<close> is a valid index on that branch since the image contains the
  separator.  \<open>temp[0]\<close> and \<open>temp[1]\<close> are read only when the name contains a colon,
  where \<open>Split\<close> has at least two pieces (lemma \<open>Split_two_pieces\<close> below).
\<close>

definition getImageInfo :: "string \<Rightarrow> ImageInfo" where
  "getImageInfo img =
     (let (host, nm) =
            (if Contains img ''/''
             then (let idx = nat (LastIndex img ''/'')
                   in (take idx img, drop (idx + 1) img))
             else (''docker.io'', img));
          (nm', tg) =
            (if Contains nm '':''
             then (let temp = Split nm '':'' in (temp ! 0, temp ! 1))
             else (nm, ''latest''))
      in \<lparr>registry = host, name = nm', tag = tg\<rparr>)"

section \<open>Errors and panics\<close>

text \<open>
  A Go \<open>error\<close> value is represented by its message.  A panic is a separate outcome:
  an index out of range, or the \<open>log.Panicf\<close> of the legacy handler.
\<close>

datatype error = Err (msg: string)

datatype panic = IndexOutOfRange | LogPanic string

section \<open>Trust data\<close>

text \<open>
  The types of package \<open>trust\<close>.  \<open>trustTagRow\<close> embeds \<open>trustTagKey\<close>, so its
  fields are \<open>SignedTag\<close>, \<open>Digest\<close> and \<open>Signers\<close>.  The fields \<open>Name\<close> and
  \<open>Signers\<close> of \<open>trustRepo\<close> are written \<open>RepoName\<close> and \<open>RepoSigners\<close>, since
  \<open>trustSigner\<close> and \<open>trustTagRow\<close> have fields of these names.
\<close>

type_synonym trustTagKey = "string \<times> string"

record trustTagRow =
  SignedTag :: string
  Digest :: string
  Signers :: "string list"

record trustKey =
  ID :: string

record trustSigner =
  Name :: string
  Keys :: "trustKey list"

record trustRepo =
  RepoName :: string
  SignedTags :: "trustTagRow list"
  RepoSigners :: "trustSigner list"
  AdministrativeKeys :: "trustSigner list"

section \<open>The legacy handler: signatures and signer policies\<close>

text \<open>
  Modelled from the spec: the declaration of type \<open>Signature\<close> is not among the sources.
  The handler reads \<open>SignedTags\<close> of a signature, with \<open>SignedTag\<close> and \<open>Digest\<close>
  in each entry; the trust summary of the specification has this shape, which is the
  shape of \<open>trustRepo\<close>.
\<close>

type_synonym Signature = trustRepo

text \<open>
  \<open>SignerPolicy\<close>: the signer names of \<open>Spec.Signers\<close>.  \<open>SignerKey\<close>: the IDs of
  the keys in \<open>Spec.Targets\<close>; the zero value has none.  \<open>Registry\<close>: the two fields
  of \<open>Status\<close> that the handler reads.
\<close>

record SignerPolicy =
  PolicySigners :: "string list"

record SignerKey =
  Targets :: "string list"

record Registry =
  ServerURL :: string
  NotaryURL :: string

text \<open>
  The handler.  \<open>signerPolicies\<close> is the field of the struct.  The other three fields
  stand for what the cluster answers through \<open>client\<close>: the GET of one signer key by
  name, the list of registries, and the command run in the docker daemon pod
  (\<open>k8s.ExecCmd\<close>), which yields the contents of the output buffer and an error or none.
\<close>

record DockerHandler =
  signerPolicies :: "SignerPolicy list"
  getSignerKey :: "string \<Rightarrow> error + SignerKey"
  getRegistries :: "Registry list"
  ExecCmd :: "string \<Rightarrow> string \<times> error option"

text \<open>
  One signer-key lookup of \<open>hasMatchedSigner\<close>: a fresh zero \<open>SignerKey\<close> is filled by
  the GET; when the GET fails the error is logged and the zero value is used.
\<close>

definition lookupSignerKey :: "DockerHandler \<Rightarrow> string \<Rightarrow> SignerKey" where
  "lookupSignerKey h signerName =
     (case getSignerKey h signerName of
        Inl err \<Rightarrow> \<lparr>Targets = []\<rparr>
      | Inr signer \<Rightarrow> signer)"

text \<open>
  The two nested loops of \<open>hasMatchedSigner\<close>.  Each returns whether a target key
  equal to \<open>key\<close> was found, and the signer names it asked the cluster for, in order;
  the loops stop at the first match.
\<close>

fun matchSigners :: "DockerHandler \<Rightarrow> string \<Rightarrow> string list \<Rightarrow> bool \<times> string list" where
  "matchSigners h key [] = (False, [])"
| "matchSigners h key (signerName # rest) =
     (if list_ex (\<lambda>targetKey. targetKey = key) (Targets (lookupSignerKey h signerName))
      then (True, [signerName])
      else (case matchSigners h key rest of (found, asked) \<Rightarrow> (found, signerName # asked)))"

fun matchPolicies :: "DockerHandler \<Rightarrow> string \<Rightarrow> SignerPolicy list \<Rightarrow> bool \<times> string list" where
  "matchPolicies h key [] = (False, [])"
| "matchPolicies h key (signerPolicy # rest) =
     (case matchSigners h key (PolicySigners signerPolicy) of
        (True, asked) \<Rightarrow> (True, asked)
      | (False, asked) \<Rightarrow>
          (case matchPolicies h key rest of (found, asked') \<Rightarrow> (found, asked @ asked')))"

text \<open>
  \<open>hasMatchedSigner\<close>.  The method \<open>getRepoAdminKey\<close> of \<open>Signature\<close> is not among
  the sources and is a parameter.  The result is the boolean of the source together
  with the signer-key lookups issued during this call.
\<close>

definition hasMatchedSigner ::
  "(Signature \<Rightarrow> string) \<Rightarrow> DockerHandler \<Rightarrow> Signature list \<Rightarrow> bool \<times> string list" where
  "hasMatchedSigner getRepoAdminKey h signatures =
     (if length (signerPolicies h) = 0 then (length signatures \<noteq> 0, [])
      else if length signatures = 0 then (False, [])
      else (let key = getRepoAdminKey (signatures ! 0)
            in matchPolicies h key (signerPolicies h)))"

text \<open>
  \<open>getDigest\<close> reads \<open>signatures[0]\<close>, which panics on an empty slice; the loop keeps
  the digest of the last entry whose tag is the tag of the image.
\<close>

definition getDigest :: "string \<Rightarrow> Signature list \<Rightarrow> panic + string" where
  "getDigest img signatures =
     (case signatures of
        [] \<Rightarrow> Inl IndexOutOfRange
      | first # _ \<Rightarrow>
          Inr (foldl (\<lambda>digest signedTag.
                        if SignedTag signedTag = tag (getImageInfo img)
                        then Digest signedTag else digest)
                 [] (SignedTags first)))"

definition findNotaryServer :: "DockerHandler \<Rightarrow> string \<Rightarrow> string" where
  "findNotaryServer h reg =
     (if reg = ''docker.io'' then ''docker.io''
      else (case find (\<lambda>r. ''https://'' @ reg = ServerURL r) (getRegistries h) of
              None \<Rightarrow> ''docker-hub''
            | Some targetReg \<Rightarrow> NotaryURL targetReg))"

text \<open>
  \<open>makeCommand\<close>.  On the third branch the source first calls \<open>loginToRegistry\<close> and
  only logs its error; the command does not depend on it.
\<close>

definition makeCommand :: "DockerHandler \<Rightarrow> ImageInfo \<Rightarrow> string" where
  "makeCommand h imageInfo =
     (let notaryServer = findNotaryServer h (registry imageInfo)
      in if notaryServer = ''docker.io''
         then ''unset DOCKER_CONTENT_TRUST_SERVER; docker trust inspect ''
              @ name imageInfo @ '':'' @ tag imageInfo
         else if notaryServer = ''docker-hub''
         then ''unset DOCKER_CONTENT_TRUST_SERVER; docker trust inspect ''
              @ registry imageInfo @ ''/'' @ name imageInfo @ '':'' @ tag imageInfo
         else ''export DOCKER_CONTENT_TRUST_SERVER='' @ notaryServer
              @ ''; docker trust inspect ''
              @ registry imageInfo @ ''/'' @ name imageInfo @ '':'' @ tag imageInfo)"

definition execToDockerDaemon :: "DockerHandler \<Rightarrow> string \<Rightarrow> string \<times> error option" where
  "execToDockerDaemon h command = ExecCmd h command"

text \<open>
  \<open>isSignedImage\<close>.  \<open>getSignatures\<close>, which decodes the output of the command, is
  not among the sources and is a parameter.  An error of the command is only logged;
  an empty output buffer panics.
\<close>

definition isSignedImage ::
  "(string \<Rightarrow> error + Signature list) \<Rightarrow> (Signature \<Rightarrow> string) \<Rightarrow> DockerHandler \<Rightarrow> string
     \<Rightarrow> panic + (bool \<times> string)" where
  "isSignedImage getSignatures getRepoAdminKey h img =
     (case execToDockerDaemon h (makeCommand h (getImageInfo img)) of
        (outBuffer, err) \<Rightarrow>
          if length outBuffer \<le> 0
          then Inl (LogPanic (''Failed to get signature of image '' @ img))
          else (case getSignatures outBuffer of
                  Inl err' \<Rightarrow> Inr (False, [])
                | Inr signatures \<Rightarrow>
                    if fst (hasMatchedSigner getRepoAdminKey h signatures)
                    then (case getDigest img signatures of
                            Inl p \<Rightarrow> Inl p
                          | Inr digest \<Rightarrow> Inr (True, digest))
                    else Inr (False, [])))"

section \<open>Package trust: reducing the metadata to a trust summary\<close>

text \<open>
  What the reduction reads of the notary client's types: a role has a name and key IDs
  (\<open>data.Role\<close>, also the part of \<open>RoleWithSignatures\<close> that is read); a signed target
  has the name of the role that signed it, the target's name, and the bytes of its
  SHA-256 hash (empty when the hash map has no such entry).
\<close>

record Role =
  RoleName :: string
  KeyIDs :: "string list"

record TargetSignedStruct =
  TargetRole :: string
  TargetName :: string
  TargetSHA256 :: string

definition CanonicalRootRole :: string where "CanonicalRootRole = ''root''"
definition CanonicalTargetsRole :: string where "CanonicalTargetsRole = ''targets''"
definition CanonicalSnapshotRole :: string where "CanonicalSnapshotRole = ''snapshot''"
definition CanonicalTimestampRole :: string where "CanonicalTimestampRole = ''timestamp''"

definition ReleasesRole :: string where
  "ReleasesRole = CanonicalTargetsRole @ ''/'' @ ''releases''"

definition releasedRoleName :: string where
  "releasedRoleName = ''Repo Admin''"

definition DefaultNotaryServer :: string where
  "DefaultNotaryServer = ''https://notary.docker.io''"

definition hexDigit :: "nat \<Rightarrow> char" where
  "hexDigit n = ''0123456789abcdef'' ! n"

definition EncodeToString :: "string \<Rightarrow> string" where
  "EncodeToString src =
     concat (map (\<lambda>b. [hexDigit ((of_char b :: nat) div 16), hexDigit ((of_char b :: nat) mod 16)]) src)"

definition isReleasedTarget :: "string \<Rightarrow> bool" where
  "isReleasedTarget role = (role = CanonicalTargetsRole \<or> role = ReleasesRole)"

definition notaryRoleToSigner :: "string \<Rightarrow> string" where
  "notaryRoleToSigner tufRole =
     (if isReleasedTarget tufRole then releasedRoleName
      else TrimPrefix tufRole ''targets/'')"

text \<open>
  A Go map is an association list with distinct keys, in the order in which the keys
  were first stored (\<open>AList.update\<close> replaces the value of a present key where it is).
  Go leaves the order of iteration over a map open; a slice built from a map is
  modelled in this order.  \<open>sort.Slice\<close> is modelled as a sort by insertion with the
  given comparison that keeps elements with equal keys in the order they had, as the
  insertion sort that \<open>sort.Slice\<close> runs on short slices does.
\<close>

fun insertBy :: "('a \<Rightarrow> 'a \<Rightarrow> bool) \<Rightarrow> 'a \<Rightarrow> 'a list \<Rightarrow> 'a list" where
  "insertBy lt x [] = [x]"
| "insertBy lt x (y # ys) = (if lt y x then y # insertBy lt x ys else x # y # ys)"

definition sortSlice :: "('a \<Rightarrow> 'a \<Rightarrow> bool) \<Rightarrow> 'a list \<Rightarrow> 'a list" where
  "sortSlice lt xs = foldr (insertBy lt) xs []"

definition targetKey :: "TargetSignedStruct \<Rightarrow> trustTagKey" where
  "targetKey tgt = (TargetName tgt, EncodeToString (TargetSHA256 tgt))"

text \<open>The first loop of \<open>matchReleasedSignatures\<close>: one empty row per released key.\<close>

definition releasedRows :: "TargetSignedStruct list \<Rightarrow> (trustTagKey \<times> string list) list" where
  "releasedRows allTargets =
     foldl (\<lambda>rows tgt.
              if isReleasedTarget (TargetRole tgt)
              then AList.update (targetKey tgt) [] rows else rows)
       [] allTargets"

text \<open>The second loop: the signers of each released key, from the other roles.\<close>

definition fillSigners ::
  "(trustTagKey \<times> string list) list \<Rightarrow> TargetSignedStruct list
     \<Rightarrow> (trustTagKey \<times> string list) list" where
  "fillSigners rows0 allTargets =
     foldl (\<lambda>rows tgt.
              (case map_of rows (targetKey tgt) of
                 Some signers \<Rightarrow>
                   if \<not> isReleasedTarget (TargetRole tgt)
                   then AList.update (targetKey tgt)
                          (signers @ [notaryRoleToSigner (TargetRole tgt)]) rows
                   else rows
               | None \<Rightarrow> rows))
       rows0 allTargets"

text \<open>
  \<open>matchReleasedSignatures\<close>.  \<open>sortorder.NaturalLess\<close> belongs to a library outside
  this repository and is a parameter.
\<close>

definition matchReleasedSignatures ::
  "(string \<Rightarrow> string \<Rightarrow> bool) \<Rightarrow> TargetSignedStruct list \<Rightarrow> trustTagRow list" where
  "matchReleasedSignatures NaturalLess allTargets =
     sortSlice (\<lambda>a b. NaturalLess (SignedTag a) (SignedTag b))
       (map (\<lambda>(key, signers). \<lparr>SignedTag = fst key, Digest = snd key, Signers = signers\<rparr>)
          (fillSigners (releasedRows allTargets) allTargets))"

definition getDelegationRoleToKeyMap :: "Role list \<Rightarrow> (string \<times> string list) list" where
  "getDelegationRoleToKeyMap rawDelegationRoles =
     foldl (\<lambda>signerRoleToKeyIDs delRole.
              if RoleName delRole = ReleasesRole \<or> RoleName delRole = CanonicalRootRole
                 \<or> RoleName delRole = CanonicalSnapshotRole
                 \<or> RoleName delRole = CanonicalTargetsRole
                 \<or> RoleName delRole = CanonicalTimestampRole
              then signerRoleToKeyIDs
              else AList.update (notaryRoleToSigner (RoleName delRole)) (KeyIDs delRole)
                     signerRoleToKeyIDs)
       [] rawDelegationRoles"

text \<open>
  The notary repository of \<open>notaryRepo\<close>, by what it answers: the signed targets of a
  tag, the administrative roles, the delegation roles (returned together with an error
  or none, and used by the source in both cases), and the name of the repository.
\<close>

record notaryRepo =
  notaryServerURL :: string
  GetAllTargetMetadataByName :: "string \<Rightarrow> error + TargetSignedStruct list"
  ListRoles :: "error + Role list"
  GetDelegationRoles :: "Role list \<times> error option"
  GetGUN :: string

definition emptyTrustRepo :: trustRepo where
  "emptyTrustRepo = \<lparr>RepoName = [], SignedTags = [], RepoSigners = [], AdministrativeKeys = []\<rparr>"

definition toKeys :: "string list \<Rightarrow> trustKey list" where
  "toKeys keyIDs = map (\<lambda>keyID. \<lparr>ID = keyID\<rparr>) keyIDs"

text \<open>The loop of \<open>GetSignedMetadata\<close> over the administrative roles.\<close>

definition adminRows :: "Role list \<Rightarrow> trustSigner list" where
  "adminRows adminRolesWithSigs =
     foldl (\<lambda>adminList adminRole.
              if RoleName adminRole = CanonicalRootRole
              then adminList @ [\<lparr>Name = ''Root'', Keys = toKeys (KeyIDs adminRole)\<rparr>]
              else if RoleName adminRole = CanonicalTargetsRole
              then adminList @ [\<lparr>Name = ''Repository'', Keys = toKeys (KeyIDs adminRole)\<rparr>]
              else adminList)
       [] adminRolesWithSigs"

text \<open>
  \<open>GetSignedMetadata\<close> returns a trust repository and an error or none; on the two
  error returns the repository is the zero value.
\<close>

definition GetSignedMetadata ::
  "(string \<Rightarrow> string \<Rightarrow> bool) \<Rightarrow> notaryRepo \<Rightarrow> string \<Rightarrow> trustRepo \<times> error option" where
  "GetSignedMetadata NaturalLess n tg =
     (case GetAllTargetMetadataByName n tg of
        Inl err \<Rightarrow> (emptyTrustRepo, Some err)
      | Inr allSignedTargets \<Rightarrow>
          (let signatureRows = matchReleasedSignatures NaturalLess allSignedTargets
           in case ListRoles n of
                Inl err \<Rightarrow> (emptyTrustRepo, Some (Err (''No signers for '' @ notaryServerURL n)))
              | Inr adminRolesWithSigs \<Rightarrow>
                  (let delegationRoles = fst (GetDelegationRoles n);
                       signatureRows' =
                         map (\<lambda>sig. if length (Signers sig) = 0
                                     then sig\<lparr>Signers := Signers sig @ [releasedRoleName]\<rparr>
                                     else sig)
                           signatureRows;
                       signerRoleToKeyIDs = getDelegationRoleToKeyMap delegationRoles;
                       signerList =
                         sortSlice (\<lambda>a b. Name a > Name b)
                           (map (\<lambda>(signerName, signerKeys).
                                   \<lparr>Name = signerName, Keys = toKeys signerKeys\<rparr>)
                              signerRoleToKeyIDs);
                       adminList =
                         sortSlice (\<lambda>a b. Name a > Name b) (adminRows adminRolesWithSigs)
                   in (\<lparr>RepoName = GetGUN n, SignedTags = signatureRows',
                         RepoSigners = signerList, AdministrativeKeys = adminList\<rparr>,
                       None))))"

section \<open>Package pods: the validator\<close>

text \<open>
  Of a container the validator reads and writes the image; of a pod it reads the
  namespace, the two container lists and the names of the image pull secrets.
\<close>

record Container =
  Image :: string

record Pod =
  Namespace :: string
  InitContainers :: "Container list"
  Containers :: "Container list"
  ImagePullSecrets :: "string list"

text \<open>
  Modelled from the spec: the type of the parsed image reference is not among the
  sources.  The validator reads \<open>host\<close>, \<open>tag\<close> and \<open>digest\<close> and writes \<open>digest\<close>;
  the specification gives the reference a registry host, a repository name, a tag and a
  digest.  The tag is written \<open>ref_tag\<close> and the name \<open>repository\<close>, since
  \<open>ImageInfo\<close> has fields \<open>tag\<close> and \<open>name\<close>.
\<close>

record ImageRef =
  host :: string
  repository :: string
  ref_tag :: string
  digest :: string

text \<open>The fields of a registry security policy that the validator reads.\<close>

record RegistrySecurityPolicy =
  Registry :: string
  Notary :: string
  SignCheck :: bool

text \<open>
  The validator.  Its struct holds the cluster client, the registry policy cache and the
  white list; their methods are not among the sources, and neither are the functions of
  the packages \<open>image\<close>, \<open>utils\<close> and \<open>notary\<close> that the validator calls.  All of
  them are fields here, by what they answer:
  \<^item> \<open>SecretsGet namespace name\<close>: the GET of a secret through the client;
  \<^item> \<open>doesMatchPolicy host namespace\<close>: the lookup in the registry policy cache;
  \<^item> \<open>IsNamespaceWhiteListed\<close>, \<open>IsImageWhiteListed\<close>: the white list;
  \<^item> \<open>parseImage\<close>;
  \<^item> \<open>NewImagePullSecret\<close> and \<open>GetHostBasicAuth\<close> of package \<open>utils\<close>;
  \<^item> \<open>FetchSignature image basicAuth notaryURL\<close> of package \<open>notary\<close>, which returns
    an error, or no signature (\<open>nil\<close>), or a signature;
  \<^item> \<open>GetDigest\<close> of a signature and \<open>RefString\<close>, the method \<open>String\<close> of a
    reference.
\<close>

record ('secret, 'ips, 'sig) validator =
  SecretsGet :: "string \<Rightarrow> string \<Rightarrow> error + 'secret"
  doesMatchPolicy :: "string \<Rightarrow> string \<Rightarrow> bool \<times> RegistrySecurityPolicy"
  IsNamespaceWhiteListed :: "string \<Rightarrow> bool"
  IsImageWhiteListed :: "string \<Rightarrow> bool"
  parseImage :: "string \<Rightarrow> error + ImageRef"
  NewImagePullSecret :: "'secret \<Rightarrow> error + 'ips"
  GetHostBasicAuth :: "'ips \<Rightarrow> string \<Rightarrow> error + string"
  FetchSignature :: "string \<Rightarrow> string \<Rightarrow> string \<Rightarrow> error + 'sig option"
  GetDigest :: "'sig \<Rightarrow> string \<Rightarrow> string"
  RefString :: "ImageRef \<Rightarrow> string"

definition findRegistryServer :: "string \<Rightarrow> string" where
  "findRegistryServer reg =
     (if reg = ''docker.io'' then ''https://registry-1.docker.io''
      else ''https://'' @ reg)"

fun getBasicAuthForRegistry ::
  "('secret, 'ips, 'sig) validator \<Rightarrow> string \<Rightarrow> string \<Rightarrow> string list \<Rightarrow> error + string" where
  "getBasicAuthForRegistry h hst namespace [] = Inr []"
| "getBasicAuthForRegistry h hst namespace (pullSecret # rest) =
     (case SecretsGet h namespace pullSecret of
        Inl err \<Rightarrow>
          Inl (Err (''couldn't get secret named '' @ pullSecret @ '' by '' @ msg err))
      | Inr secret \<Rightarrow>
          (case NewImagePullSecret h secret of
             Inl err \<Rightarrow> Inl err
           | Inr imagePullSecret \<Rightarrow>
               (case GetHostBasicAuth h imagePullSecret (findRegistryServer hst) of
                  Inl err \<Rightarrow> Inl err
                | Inr basicAuth \<Rightarrow>
                    if basicAuth = [] then getBasicAuthForRegistry h hst namespace rest
                    else Inr basicAuth)))"

text \<open>The three rejection reasons of \<open>addDigestWhenImageValid\<close>.\<close>

definition quoted :: "string \<Rightarrow> string" where
  "quoted s = [CHR 0x27] @ s @ [CHR 0x27]"

definition reasonNotSigned :: "string \<Rightarrow> string" where
  "reasonNotSigned img = ''Image '' @ quoted img @ '' is not signed''"

definition reasonDigestDiffers :: "string \<Rightarrow> string" where
  "reasonDigestDiffers img =
     ''Image '' @ quoted img @ [CHR 0x27] @ ''s digest is different from the signed digest''"

definition reasonNoPolicy :: "string \<Rightarrow> string" where
  "reasonNoPolicy img =
     ''Image '' @ quoted img
       @ '' does not meet registry security policy. Please check the RegistrySecurityPolicy''"

text \<open>
  A verdict is the triple that the Go functions return: valid, reason, error or none.
  A call of the trust client is recorded by its arguments.
\<close>

type_synonym verdict = "bool \<times> string \<times> error option"

type_synonym fetchCall = "string \<times> string \<times> string"

text \<open>
  \<open>addDigestWhenImageValid\<close>: the loop over the containers.  A white-listed container
  is passed over (\<open>continue\<close>); every other path through the body returns.  The
  result is the verdict, the containers after the call (the source writes the image of
  \<open>containers[i]\<close> in place) and the calls of the trust client that were made.
\<close>

fun addDigestWhenImageValid ::
  "('secret, 'ips, 'sig) validator \<Rightarrow> Container list \<Rightarrow> string \<Rightarrow> string list
     \<Rightarrow> verdict \<times> Container list \<times> fetchCall list" where
  "addDigestWhenImageValid h [] namespace pullSecrets = ((True, [], None), [], [])"
| "addDigestWhenImageValid h (container # rest) namespace pullSecrets =
     (if IsImageWhiteListed h (Image container)
      then (case addDigestWhenImageValid h rest namespace pullSecrets of
              (v, rest', calls) \<Rightarrow> (v, container # rest', calls))
      else
       (case parseImage h (Image container) of
          Inl err \<Rightarrow> ((False, [], Some err), container # rest, [])
        | Inr ref \<Rightarrow>
           (case getBasicAuthForRegistry h (host ref) namespace pullSecrets of
              Inl err \<Rightarrow> ((False, [], Some err), container # rest, [])
            | Inr basicAuth \<Rightarrow>
               (case doesMatchPolicy h (host ref) namespace of
                  (valid, policy) \<Rightarrow>
                    if valid \<and> Registry policy = []
                    then ((True, [], None), container # rest, [])
                    else if valid
                    then
                     (if \<not> SignCheck policy
                      then ((True, [], None), container # rest, [])
                      else
                       (let call = (Image container, basicAuth, Notary policy)
                        in case FetchSignature h (Image container) basicAuth (Notary policy) of
                             Inl err \<Rightarrow> ((False, [], Some err), container # rest, [call])
                           | Inr None \<Rightarrow>
                               ((False, reasonNotSigned (Image container), None),
                                container # rest, [call])
                           | Inr (Some sig) \<Rightarrow>
                               (let dg = GetDigest h sig (ref_tag ref)
                                in if digest ref \<noteq> [] \<and> digest ref \<noteq> dg
                                   then ((False, reasonDigestDiffers (Image container), None),
                                         container # rest, [call])
                                   else ((True, [], None),
                                         container\<lparr>Image := RefString h (ref\<lparr>digest := dg\<rparr>)\<rparr>
                                           # rest,
                                         [call]))))
                    else ((False, reasonNoPolicy (Image container), None),
                          container # rest, [])))))"

text \<open>
  \<open>CheckIsValidAndAddDigest\<close>: the verdict, the pod after the call, and the calls of
  the trust client.
\<close>

definition CheckIsValidAndAddDigest ::
  "('secret, 'ips, 'sig) validator \<Rightarrow> Pod \<Rightarrow> verdict \<times> Pod \<times> fetchCall list" where
  "CheckIsValidAndAddDigest h pod =
     (if IsNamespaceWhiteListed h (Namespace pod) then ((True, [], None), pod, [])
      else
       (case addDigestWhenImageValid h (InitContainers pod) (Namespace pod) (ImagePullSecrets pod) of
          ((isValid, reason, err), inits, calls) \<Rightarrow>
            (let pod1 = pod\<lparr>InitContainers := inits\<rparr>
             in if err \<noteq> None then ((False, [], err), pod1, calls)
                else if \<not> isValid then ((False, reason, None), pod1, calls)
                else
                 (case addDigestWhenImageValid h (Containers pod1) (Namespace pod1)
                         (ImagePullSecrets pod1) of
                    ((isValid', reason', err'), conts, calls') \<Rightarrow>
                      (let pod2 = pod1\<lparr>Containers := conts\<rparr>
                       in if err' \<noteq> None then ((False, [], err'), pod2, calls @ calls')
                          else if \<not> isValid' then ((False, reason', None), pod2, calls @ calls')
                          else ((True, [], None), pod2, calls @ calls'))))))"

section \<open>Notions used to state the properties\<close>

text \<open>
  The delegated signers of a signed tag: the roles other than \<open>targets\<close> and
  \<open>targets/releases\<close> that signed the same tag and digest, in the order of the
  metadata, each with its \<open>targets/\<close> prefix stripped.
\<close>

definition delegatedSigners :: "TargetSignedStruct list \<Rightarrow> trustTagKey \<Rightarrow> string list" where
  "delegatedSigners allTargets key =
     map (\<lambda>tgt. TrimPrefix (TargetRole tgt) ''targets/'')
       (filter (\<lambda>tgt. targetKey tgt = key \<and> \<not> isReleasedTarget (TargetRole tgt)) allTargets)"

text \<open>
  What one listed pull secret yields for a registry host: the three steps of the loop
  body of \<open>getBasicAuthForRegistry\<close>, an error or the credential (empty when the
  secret has none for the host).
\<close>

definition pullSecretYields ::
  "('secret, 'ips, 'sig) validator \<Rightarrow> string \<Rightarrow> string \<Rightarrow> string \<Rightarrow> error + string" where
  "pullSecretYields h hst namespace pullSecret =
     (case SecretsGet h namespace pullSecret of
        Inl err \<Rightarrow>
          Inl (Err (''couldn't get secret named '' @ pullSecret @ '' by '' @ msg err))
      | Inr secret \<Rightarrow>
          (case NewImagePullSecret h secret of
             Inl err \<Rightarrow> Inl err
           | Inr imagePullSecret \<Rightarrow>
               GetHostBasicAuth h imagePullSecret (findRegistryServer hst)))"

section \<open>Concrete configurations\<close>

text \<open>
  A trust summary for \<open>reg.io/app\<close>: tag \<open>v1\<close> signed by the repository
  administrator, whose key is \<open>mallory-key\<close>.
\<close>

definition demoSignature :: trustRepo where
  "demoSignature =
     \<lparr>RepoName = ''reg.io/app'',
      SignedTags = [\<lparr>SignedTag = ''v1'', Digest = ''abc123'', Signers = [''Repo Admin'']\<rparr>],
      RepoSigners = [],
      AdministrativeKeys = [\<lparr>Name = ''Root'', Keys = [\<lparr>ID = ''rootkey''\<rparr>]\<rparr>,
                            \<lparr>Name = ''Repository'', Keys = [\<lparr>ID = ''mallory-key''\<rparr>]\<rparr>]\<rparr>"

text \<open>
  A validator.  Registry \<open>reg.io\<close> requires signatures, \<open>open.io\<close> does not, no other
  registry has a policy.  Namespace \<open>kube-system\<close> and the images containing \<open>pause\<close>
  are white-listed.  Secret \<open>regcred\<close> holds a credential for \<open>reg.io\<close>, secret
  \<open>other\<close> holds none, and no other secret exists.  Image \<open>reg.io/unsigned:v1\<close> has no
  trust data, the notary fails for \<open>reg.io/down:v1\<close>, and every other image of
  \<open>reg.io\<close> has the summary above.
\<close>

definition demoParse :: "string \<Rightarrow> error + ImageRef" where
  "demoParse img =
     (if img = ''reg.io/app:v1@sha256:ffff''
      then Inr \<lparr>host = ''reg.io'', repository = ''app'', ref_tag = ''v1'', digest = ''ffff''\<rparr>
      else Inr \<lparr>host = registry (getImageInfo img), repository = name (getImageInfo img),
                ref_tag = tag (getImageInfo img), digest = []\<rparr>)"

definition demoValidator :: "(string, string, trustRepo) validator" where
  "demoValidator =
     \<lparr>SecretsGet = (\<lambda>namespace nm.
         if nm = ''regcred'' then Inr ''dXNlcjpwdw==''
         else if nm = ''other'' then Inr []
         else Inl (Err ''secrets not found'')),
      doesMatchPolicy = (\<lambda>hst namespace.
         if hst = ''reg.io''
         then (True, \<lparr>Registry = ''reg.io'', Notary = ''https://notary.reg.io'', SignCheck = True\<rparr>)
         else if hst = ''open.io''
         then (True, \<lparr>Registry = ''open.io'', Notary = [], SignCheck = False\<rparr>)
         else (False, \<lparr>Registry = [], Notary = [], SignCheck = False\<rparr>)),
      IsNamespaceWhiteListed = (\<lambda>namespace. namespace = ''kube-system''),
      IsImageWhiteListed = (\<lambda>img. Contains img ''pause''),
      parseImage = demoParse,
      NewImagePullSecret = (\<lambda>secret. Inr secret),
      GetHostBasicAuth = (\<lambda>imagePullSecret server.
         if server = ''https://reg.io'' then Inr imagePullSecret else Inr []),
      FetchSignature = (\<lambda>img basicAuth notaryURL.
         if img = ''reg.io/unsigned:v1'' then Inr None
         else if img = ''reg.io/down:v1'' then Inl (Err ''connection refused'')
         else Inr (Some demoSignature)),
      GetDigest = (\<lambda>sig tg.
         foldl (\<lambda>d row. if SignedTag row = tg then Digest row else d) [] (SignedTags sig)),
      RefString = (\<lambda>ref.
         host ref @ ''/'' @ repository ref @ '':'' @ ref_tag ref
           @ (if digest ref = [] then [] else ''@sha256:'' @ digest ref))\<rparr>"

text \<open>A pod whose first container passes and whose second container has no policy.\<close>

definition demoPod :: Pod where
  "demoPod =
     \<lparr>Namespace = ''default'',
      InitContainers = [],
      Containers = [\<lparr>Image = ''open.io/tool:v3''\<rparr>, \<lparr>Image = ''evil.io/miner:v1''\<rparr>],
      ImagePullSecrets = []\<rparr>"

text \<open>
  A legacy handler with one signer policy naming \<open>alice\<close>.  The cluster knows the keys
  of \<open>alice\<close> and of \<open>bob\<close>; \<open>bob\<close> owns \<open>mallory-key\<close>.  The docker daemon
  answers every command with the same output, which decodes to the summary above.
\<close>

definition demoHandler :: DockerHandler where
  "demoHandler =
     \<lparr>signerPolicies = [\<lparr>PolicySigners = [''alice'']\<rparr>],
      getSignerKey = (\<lambda>signerName.
         if signerName = ''alice'' then Inr \<lparr>Targets = [''alice-key'']\<rparr>
         else if signerName = ''bob'' then Inr \<lparr>Targets = [''bob-key'', ''mallory-key'']\<rparr>
         else Inl (Err ''signerkeys not found'')),
      getRegistries = [\<lparr>ServerURL = ''https://reg.io'', NotaryURL = ''https://notary.reg.io''\<rparr>],
      ExecCmd = (\<lambda>command. (''trust data'', None))\<rparr>"

definition demoRepoAdminKey :: "Signature \<Rightarrow> string" where
  "demoRepoAdminKey sig =
     (case find (\<lambda>s. Name s = ''Repository'') (AdministrativeKeys sig) of
        None \<Rightarrow> []
      | Some s \<Rightarrow> (case Keys s of [] \<Rightarrow> [] | k # _ \<Rightarrow> ID k))"

definition demoGetSignatures :: "string \<Rightarrow> error + Signature list" where
  "demoGetSignatures out =
     (if out = ''trust data'' then Inr [demoSignature]
      else if out = ''[]'' then Inr []
      else Inl (Err ''unexpected end of JSON input''))"

text \<open>A notary repository: \<open>v1\<close> is released and also signed by \<open>alice\<close>, \<open>v2\<close> is
  released by \<open>targets/releases\<close> alone, and \<open>v3\<close> is signed by \<open>bob\<close> but not
  released.\<close>

definition demoRepo :: notaryRepo where
  "demoRepo =
     \<lparr>notaryServerURL = ''https://notary.reg.io'',
      GetAllTargetMetadataByName = (\<lambda>tg.
         Inr [\<lparr>TargetRole = ''targets'', TargetName = ''v1'', TargetSHA256 = [CHR 0xab, CHR 0xc1]\<rparr>,
              \<lparr>TargetRole = ''targets/alice'', TargetName = ''v1'', TargetSHA256 = [CHR 0xab, CHR 0xc1]\<rparr>,
              \<lparr>TargetRole = ''targets/releases'', TargetName = ''v2'', TargetSHA256 = [CHR 0x12]\<rparr>,
              \<lparr>TargetRole = ''targets/bob'', TargetName = ''v3'', TargetSHA256 = [CHR 0x34]\<rparr>]),
      ListRoles = Inr [\<lparr>RoleName = ''snapshot'', KeyIDs = [''snapkey'']\<rparr>,
                       \<lparr>RoleName = ''targets'', KeyIDs = [''mallory-key'']\<rparr>,
                       \<lparr>RoleName = ''root'', KeyIDs = [''rootkey'']\<rparr>],
      GetDelegationRoles =
        ([\<lparr>RoleName = ''targets/releases'', KeyIDs = [''relkey'']\<rparr>,
          \<lparr>RoleName = ''targets/alice'', KeyIDs = [''alice-key'']\<rparr>,
          \<lparr>RoleName = ''targets/bob'', KeyIDs = [''bob-key'']\<rparr>], None),
      GetGUN = ''reg.io/app''\<rparr>"

lemmas demo_defs = demoValidator_def demoParse_def demoPod_def demoSignature_def
  demoHandler_def demoRepoAdminKey_def demoGetSignatures_def
  getImageInfo_def LastIndex_def Split_def genSplit.simps
  reasonNoPolicy_def reasonNotSigned_def reasonDigestDiffers_def quoted_def
  findRegistryServer_def

section \<open>Facts about the string functions\<close>

lemma genSplit_nonempty: "genSplit sep acc s \<noteq> []"
  by (induction sep acc s rule: genSplit.induct) (subst genSplit.simps, simp)

lemma genSplit_two_pieces:
  "sep \<noteq> [] \<Longrightarrow> Contains s sep \<Longrightarrow> 2 \<le> length (genSplit sep acc s)"
proof (induction sep acc s rule: genSplit.induct)
  case (1 sep acc s)
  show ?case
  proof (cases s)
    case Nil
    with "1.prems" show ?thesis by simp
  next
    case (Cons c cs)
    show ?thesis
    proof (cases "prefix sep s")
      case True
      have "genSplit sep [] (drop (length sep) s) \<noteq> []" by (rule genSplit_nonempty)
      then have "1 \<le> length (genSplit sep [] (drop (length sep) s))"
        by (cases "genSplit sep [] (drop (length sep) s)") simp_all
      with True Cons "1.prems" show ?thesis
        by (subst genSplit.simps) simp
    next
      case False
      with Cons "1.prems" have "Contains cs sep" by simp
      with False Cons "1.prems" "1.IH"(2) have "2 \<le> length (genSplit sep (hd s # acc) (tl s))"
        by simp
      with False Cons show ?thesis
        by (subst genSplit.simps) simp
    qed
  qed
qed

lemma Split_two_pieces: "sep \<noteq> [] \<Longrightarrow> Contains s sep \<Longrightarrow> 2 \<le> length (Split s sep)"
  by (simp add: Split_def genSplit_two_pieces)

section \<open>Facts about the loops\<close>

lemma hasMatchedSigner_nonempty: "fst (hasMatchedSigner k h sigs) \<Longrightarrow> sigs \<noteq> []"
  by (auto simp: hasMatchedSigner_def split: if_splits)

lemma getDigest_panics_iff: "getDigest img sigs = Inl p \<longleftrightarrow> sigs = [] \<and> p = IndexOutOfRange"
  by (cases sigs) (auto simp: getDigest_def)

lemma matchSigners_found:
  "fst (matchSigners h key ns) = (\<exists>n\<in>set ns. key \<in> set (Targets (lookupSignerKey h n)))"
  by (induction ns) (auto simp: list_ex_iff split: prod.splits)

lemma matchSigners_asked:
  "prefix (snd (matchSigners h key ns)) ns
   \<and> (\<not> fst (matchSigners h key ns) \<longrightarrow> snd (matchSigners h key ns) = ns)"
  by (induction ns) (auto split: prod.splits)

lemma matchPolicies_found:
  "fst (matchPolicies h key ps) =
     (\<exists>p\<in>set ps. \<exists>n\<in>set (PolicySigners p). key \<in> set (Targets (lookupSignerKey h n)))"
proof (induction ps)
  case Nil
  then show ?case by simp
next
  case (Cons p ps)
  show ?case
  proof (cases "fst (matchSigners h key (PolicySigners p))")
    case True
    then have "fst (matchPolicies h key (p # ps))"
      by (cases "matchSigners h key (PolicySigners p)") auto
    with True show ?thesis by (auto simp: matchSigners_found)
  next
    case False
    then have "fst (matchPolicies h key (p # ps)) = fst (matchPolicies h key ps)"
      by (cases "matchSigners h key (PolicySigners p)") (auto split: prod.splits)
    with False Cons.IH show ?thesis by (auto simp: matchSigners_found)
  qed
qed

lemma matchPolicies_asked:
  "prefix (snd (matchPolicies h key ps)) (concat (map PolicySigners ps))
   \<and> (\<not> fst (matchPolicies h key ps) \<longrightarrow>
        snd (matchPolicies h key ps) = concat (map PolicySigners ps))"
proof (induction ps)
  case Nil
  then show ?case by simp
next
  case (Cons p ps)
  show ?case
  proof (cases "fst (matchSigners h key (PolicySigners p))")
    case True
    then have "snd (matchPolicies h key (p # ps)) = snd (matchSigners h key (PolicySigners p))"
      and "fst (matchPolicies h key (p # ps))"
      by (cases "matchSigners h key (PolicySigners p)"; auto)+
    moreover have "prefix (snd (matchSigners h key (PolicySigners p))) (PolicySigners p)"
      using matchSigners_asked by blast
    ultimately show ?thesis by (auto intro: prefix_prefix)
  next
    case False
    then have a: "snd (matchPolicies h key (p # ps)) = PolicySigners p @ snd (matchPolicies h key ps)"
      and b: "fst (matchPolicies h key (p # ps)) = fst (matchPolicies h key ps)"
      using matchSigners_asked [of h key "PolicySigners p"]
      by (cases "matchSigners h key (PolicySigners p)"; auto split: prod.splits)+
    with Cons.IH show ?thesis by auto
  qed
qed

text \<open>White-listed containers at the front of the list are passed over unchanged.\<close>

lemma addDigest_skip_whitelisted:
  "\<forall>w\<in>set ws. IsImageWhiteListed h (Image w) \<Longrightarrow>
   addDigestWhenImageValid h (ws @ cs) ns ps =
     (case addDigestWhenImageValid h cs ns ps of (v, cs', calls) \<Rightarrow> (v, ws @ cs', calls))"
  by (induction ws) (auto split: prod.splits)

text \<open>
  The loop changes the list only on the path that ends in the rewrite: there the first
  container that is not white-listed has a policy that requires signatures, a trust
  summary, and no explicit digest or the resolved one.
\<close>

lemma addDigest_rewrite_only:
  "fst (snd (addDigestWhenImageValid h cs ns ps)) \<noteq> cs \<Longrightarrow>
   \<exists>ws c rest ref basicAuth policy sig.
      cs = ws @ c # rest \<and> (\<forall>w\<in>set ws. IsImageWhiteListed h (Image w))
      \<and> \<not> IsImageWhiteListed h (Image c)
      \<and> parseImage h (Image c) = Inr ref
      \<and> getBasicAuthForRegistry h (host ref) ns ps = Inr basicAuth
      \<and> doesMatchPolicy h (host ref) ns = (True, policy)
      \<and> SignCheck policy
      \<and> FetchSignature h (Image c) basicAuth (Notary policy) = Inr (Some sig)
      \<and> (digest ref = [] \<or> digest ref = GetDigest h sig (ref_tag ref))"
proof (induction cs)
  case Nil
  then show ?case by simp
next
  case (Cons c cs)
  show ?case
  proof (cases "IsImageWhiteListed h (Image c)")
    case True
    with Cons.prems have "fst (snd (addDigestWhenImageValid h cs ns ps)) \<noteq> cs"
      by (auto split: prod.splits)
    from Cons.IH [OF this] obtain ws c' rest ref basicAuth policy sig where
      h: "cs = ws @ c' # rest" "\<forall>w\<in>set ws. IsImageWhiteListed h (Image w)"
      "\<not> IsImageWhiteListed h (Image c')"
      "parseImage h (Image c') = Inr ref"
      "getBasicAuthForRegistry h (host ref) ns ps = Inr basicAuth"
      "doesMatchPolicy h (host ref) ns = (True, policy)"
      "SignCheck policy"
      "FetchSignature h (Image c') basicAuth (Notary policy) = Inr (Some sig)"
      "digest ref = [] \<or> digest ref = GetDigest h sig (ref_tag ref)"
      by blast
    from h(1,2) True have "c # cs = (c # ws) @ c' # rest"
      "\<forall>w\<in>set (c # ws). IsImageWhiteListed h (Image w)"
      by simp_all
    with h(3-9) show ?thesis by blast
  next
    case False
    with Cons.prems have
      "\<exists>ref basicAuth policy sig.
        parseImage h (Image c) = Inr ref
      \<and> getBasicAuthForRegistry h (host ref) ns ps = Inr basicAuth
      \<and> doesMatchPolicy h (host ref) ns = (True, policy)
      \<and> SignCheck policy
      \<and> FetchSignature h (Image c) basicAuth (Notary policy) = Inr (Some sig)
      \<and> (digest ref = [] \<or> digest ref = GetDigest h sig (ref_tag ref))"
      by (auto simp: Let_def split: sum.splits prod.splits if_splits option.splits)
    then obtain ref basicAuth policy sig where
      "parseImage h (Image c) = Inr ref"
      "getBasicAuthForRegistry h (host ref) ns ps = Inr basicAuth"
      "doesMatchPolicy h (host ref) ns = (True, policy)"
      "SignCheck policy"
      "FetchSignature h (Image c) basicAuth (Notary policy) = Inr (Some sig)"
      "digest ref = [] \<or> digest ref = GetDigest h sig (ref_tag ref)"
      by blast
    moreover have "c # cs = [] @ c # cs" "\<forall>w\<in>set []. IsImageWhiteListed h (Image w)"
      by simp_all
    ultimately show ?thesis using False by blast
  qed
qed

text \<open>
  The outcome of the loop when the first container that is not white-listed reaches the
  signature check: it is decided by the answer of the trust client and the digests.
\<close>

lemma addDigest_signature_check:
  assumes "\<forall>w\<in>set ws. IsImageWhiteListed h (Image w)"
    and "\<not> IsImageWhiteListed h (Image c)"
    and "parseImage h (Image c) = Inr ref"
    and "getBasicAuthForRegistry h (host ref) ns ps = Inr basicAuth"
    and "doesMatchPolicy h (host ref) ns = (True, policy)"
    and "Registry policy \<noteq> []" and "SignCheck policy"
  shows "addDigestWhenImageValid h (ws @ c # rest) ns ps =
     (case FetchSignature h (Image c) basicAuth (Notary policy) of
        Inl err \<Rightarrow> ((False, [], Some err), ws @ c # rest, [(Image c, basicAuth, Notary policy)])
      | Inr None \<Rightarrow> ((False, reasonNotSigned (Image c), None), ws @ c # rest,
                      [(Image c, basicAuth, Notary policy)])
      | Inr (Some sig) \<Rightarrow>
          (if digest ref \<noteq> [] \<and> digest ref \<noteq> GetDigest h sig (ref_tag ref)
           then ((False, reasonDigestDiffers (Image c), None), ws @ c # rest,
                 [(Image c, basicAuth, Notary policy)])
           else ((True, [], None),
                 ws @ c\<lparr>Image := RefString h (ref\<lparr>digest := GetDigest h sig (ref_tag ref)\<rparr>)\<rparr> # rest,
                 [(Image c, basicAuth, Notary policy)])))"
  using assms
  by (simp add: addDigest_skip_whitelisted Let_def split: prod.splits sum.splits option.splits)

text \<open>The loop returns at the first container that is not white-listed.\<close>

lemma addDigest_stops_at_first_checked:
  "\<not> IsImageWhiteListed h (Image c) \<Longrightarrow>
   fst (addDigestWhenImageValid h (c # rest) ns ps) = fst (addDigestWhenImageValid h [c] ns ps)"
  by (auto simp: Let_def split: sum.splits prod.splits option.splits)

text \<open>The verdict for a pod, from the verdicts for its two container lists.\<close>

lemma Check_verdict:
  "\<not> IsNamespaceWhiteListed h (Namespace pod) \<Longrightarrow>
   fst (CheckIsValidAndAddDigest h pod) =
     (case fst (addDigestWhenImageValid h (InitContainers pod) (Namespace pod) (ImagePullSecrets pod)) of
        (isValid, reason, err) \<Rightarrow>
          if err \<noteq> None then (False, [], err)
          else if \<not> isValid then (False, reason, None)
          else (case fst (addDigestWhenImageValid h (Containers pod) (Namespace pod) (ImagePullSecrets pod)) of
                  (isValid', reason', err') \<Rightarrow>
                    if err' \<noteq> None then (False, [], err')
                    else if \<not> isValid' then (False, reason', None)
                    else (True, [], None)))"
  by (simp add: CheckIsValidAndAddDigest_def Let_def split: prod.splits)

lemma getBasicAuth_skip:
  "\<forall>p\<in>set pre. pullSecretYields h hst ns p = Inr [] \<Longrightarrow>
   getBasicAuthForRegistry h hst ns (pre @ rest) = getBasicAuthForRegistry h hst ns rest"
  by (induction pre) (auto simp: pullSecretYields_def split: sum.splits)

lemma getBasicAuth_head:
  "getBasicAuthForRegistry h hst ns (s # rest) =
     (case pullSecretYields h hst ns s of
        Inl err \<Rightarrow> Inl err
      | Inr basicAuth \<Rightarrow> if basicAuth = [] then getBasicAuthForRegistry h hst ns rest
                          else Inr basicAuth)"
  by (simp add: pullSecretYields_def split: sum.splits)

text \<open>The concrete validator on the images used below.\<close>

lemma demo_checks:
  "\<forall>w\<in>set [\<lparr>Image = ''k8s.gcr.io/pause:3.2''\<rparr>]. IsImageWhiteListed demoValidator (Image w)"
  "\<not> IsImageWhiteListed demoValidator (Image \<lparr>Image = ''reg.io/app:v1@sha256:ffff''\<rparr>)"
  "parseImage demoValidator (Image \<lparr>Image = ''reg.io/app:v1@sha256:ffff''\<rparr>)
     = Inr \<lparr>host = ''reg.io'', repository = ''app'', ref_tag = ''v1'', digest = ''ffff''\<rparr>"
  "\<not> IsImageWhiteListed demoValidator (Image \<lparr>Image = ''reg.io/app:v1''\<rparr>)"
  "parseImage demoValidator (Image \<lparr>Image = ''reg.io/app:v1''\<rparr>)
     = Inr \<lparr>host = ''reg.io'', repository = ''app'', ref_tag = ''v1'', digest = []\<rparr>"
  "getBasicAuthForRegistry demoValidator ''reg.io'' ''default'' [''other'', ''regcred'']
     = Inr ''dXNlcjpwdw==''"
  "doesMatchPolicy demoValidator ''reg.io'' ''default''
     = (True, \<lparr>Registry = ''reg.io'', Notary = ''https://notary.reg.io'', SignCheck = True\<rparr>)"
  "FetchSignature demoValidator ''reg.io/app:v1@sha256:ffff'' ''dXNlcjpwdw=='' ''https://notary.reg.io''
     = Inr (Some demoSignature)"
  "FetchSignature demoValidator ''reg.io/app:v1'' ''dXNlcjpwdw=='' ''https://notary.reg.io''
     = Inr (Some demoSignature)"
  "GetDigest demoValidator demoSignature ''v1'' = ''abc123''"
  by (simp_all add: demo_defs)

section \<open>Facts about the metadata reduction\<close>

lemma set_insertBy: "set (insertBy lt x xs) = insert x (set xs)"
  by (induction xs) auto

lemma set_sortSlice: "set (sortSlice lt xs) = set xs"
  by (induction xs) (simp_all add: sortSlice_def set_insertBy)

lemma in_update_cases: "x \<in> set (AList.update k v al) \<Longrightarrow> x = (k, v) \<or> x \<in> set al"
  by (induction al) (auto split: if_splits)

lemma releasedRows_fold_map_of:
  "map_of (foldl (\<lambda>rows tgt. if isReleasedTarget (TargetRole tgt)
                              then AList.update (targetKey tgt) [] rows else rows) rows0 ts) k
   = (if \<exists>t\<in>set ts. isReleasedTarget (TargetRole t) \<and> targetKey t = k then Some []
      else map_of rows0 k)"
  by (induction ts arbitrary: rows0) (auto simp: update_conv')

lemma releasedRows_fold_distinct:
  "distinct (map fst rows0) \<Longrightarrow>
   distinct (map fst (foldl (\<lambda>rows tgt. if isReleasedTarget (TargetRole tgt)
                              then AList.update (targetKey tgt) [] rows else rows) rows0 ts))"
  by (induction ts arbitrary: rows0) (auto simp: distinct_update)

lemma releasedRows_map_of:
  "map_of (releasedRows ts) k
   = (if \<exists>t\<in>set ts. isReleasedTarget (TargetRole t) \<and> targetKey t = k then Some [] else None)"
  by (simp add: releasedRows_def releasedRows_fold_map_of)

lemma releasedRows_distinct: "distinct (map fst (releasedRows ts))"
  by (simp add: releasedRows_def releasedRows_fold_distinct)

lemma fillSigners_map_of:
  "map_of (fillSigners rows0 ts) k = map_option (\<lambda>v. v @ delegatedSigners ts k) (map_of rows0 k)"
proof (induction ts arbitrary: rows0)
  case Nil
  then show ?case by (simp add: fillSigners_def delegatedSigners_def option.map_ident)
next
  case (Cons t ts)
  have step: "fillSigners rows0 (t # ts) =
     fillSigners (case map_of rows0 (targetKey t) of
                 Some signers \<Rightarrow>
                   if \<not> isReleasedTarget (TargetRole t)
                   then AList.update (targetKey t)
                          (signers @ [notaryRoleToSigner (TargetRole t)]) rows0
                   else rows0
               | None \<Rightarrow> rows0) ts"
    by (simp add: fillSigners_def)
  show ?case
    unfolding step Cons.IH
    by (cases "map_of rows0 k")
       (auto simp: update_conv' delegatedSigners_def notaryRoleToSigner_def split: option.splits)
qed

lemma fillSigners_distinct:
  "distinct (map fst rows0) \<Longrightarrow> distinct (map fst (fillSigners rows0 ts))"
  unfolding fillSigners_def
  by (induction ts arbitrary: rows0) (auto simp: distinct_update split: option.splits)

text \<open>
  Every row of \<open>matchReleasedSignatures\<close> belongs to a released target and lists the
  delegated signers of its tag and digest.
\<close>

lemma matchReleasedSignatures_rows:
  assumes "row \<in> set (matchReleasedSignatures lt ts)"
  shows "Signers row = delegatedSigners ts (SignedTag row, Digest row)
       \<and> (\<exists>t\<in>set ts. isReleasedTarget (TargetRole t) \<and> targetKey t = (SignedTag row, Digest row))"
proof -
  let ?m = "fillSigners (releasedRows ts) ts"
  from assms obtain k v where kv: "(k, v) \<in> set ?m"
    and row: "row = \<lparr>SignedTag = fst k, Digest = snd k, Signers = v\<rparr>"
    by (auto simp: matchReleasedSignatures_def set_sortSlice)
  have "distinct (map fst ?m)" by (simp add: fillSigners_distinct releasedRows_distinct)
  with kv have "map_of ?m k = Some v" by simp
  then have "map_option (\<lambda>v. v @ delegatedSigners ts k) (map_of (releasedRows ts) k) = Some v"
    by (simp add: fillSigners_map_of)
  then have "v = delegatedSigners ts k"
    and "\<exists>t\<in>set ts. isReleasedTarget (TargetRole t) \<and> targetKey t = k"
    by (auto simp: releasedRows_map_of split: if_splits)
  with row show ?thesis by simp
qed

lemma delegationMap_fold_entries:
  "(k, v) \<in> set (foldl (\<lambda>signerRoleToKeyIDs delRole.
              if RoleName delRole = ReleasesRole \<or> RoleName delRole = CanonicalRootRole
                 \<or> RoleName delRole = CanonicalSnapshotRole
                 \<or> RoleName delRole = CanonicalTargetsRole
                 \<or> RoleName delRole = CanonicalTimestampRole
              then signerRoleToKeyIDs
              else AList.update (notaryRoleToSigner (RoleName delRole)) (KeyIDs delRole)
                     signerRoleToKeyIDs) m0 rs) \<Longrightarrow>
   (k, v) \<in> set m0 \<or>
   (\<exists>r\<in>set rs. RoleName r \<noteq> ReleasesRole \<and> RoleName r \<noteq> CanonicalTargetsRole
        \<and> k = TrimPrefix (RoleName r) ''targets/'' \<and> v = KeyIDs r)"
proof (induction rs arbitrary: m0)
  case Nil
  then show ?case by simp
next
  case (Cons r rs)
  from Cons.prems Cons.IH show ?case
    by (fastforce simp: notaryRoleToSigner_def isReleasedTarget_def split: if_splits
          dest: in_update_cases)
qed

lemma getDelegationRoleToKeyMap_entries:
  "(k, v) \<in> set (getDelegationRoleToKeyMap rs) \<Longrightarrow>
   \<exists>r\<in>set rs. RoleName r \<noteq> ReleasesRole \<and> RoleName r \<noteq> CanonicalTargetsRole
        \<and> k = TrimPrefix (RoleName r) ''targets/'' \<and> v = KeyIDs r"
  unfolding getDelegationRoleToKeyMap_def
  by (drule delegationMap_fold_entries) simp

section \<open>The image parser of the legacy handler\<close>

text \<open>
  C2, as the specification states it, fails on its own example: \<open>getImageInfo\<close> cuts
  at the last slash, so for \<open>myreg.example.com/team/app:v2\<close> the registry is not
  \<open>myreg.example.com\<close> and the name is not \<open>team/app\<close>.
\<close>

theorem getImageInfo_example_counterexample:
  "getImageInfo ''myreg.example.com/team/app:v2''
     \<noteq> \<lparr>registry = ''myreg.example.com'', name = ''team/app'', tag = ''v2''\<rparr>"
  by (simp add: getImageInfo_def LastIndex_def Split_def genSplit.simps)

text \<open>
  C2, amended: for \<open>myreg.example.com/team/app:v2\<close> the parser returns registry
  \<open>myreg.example.com/team\<close>, name \<open>app\<close> and tag \<open>v2\<close>.  For every input without a
  slash the registry is \<open>docker.io\<close>; for every input without a slash and without a
  colon the name is the input and the tag is \<open>latest\<close>; and for every input with a
  slash whose part after the last slash has no colon the tag is \<open>latest\<close>.
\<close>

theorem getImageInfo_splits_at_last_slash:
  "getImageInfo ''myreg.example.com/team/app:v2''
     = \<lparr>registry = ''myreg.example.com/team'', name = ''app'', tag = ''v2''\<rparr>
   \<and> (\<not> Contains img ''/'' \<longrightarrow> registry (getImageInfo img) = ''docker.io'')
   \<and> (\<not> Contains img ''/'' \<and> \<not> Contains img '':'' \<longrightarrow>
         name (getImageInfo img) = img \<and> tag (getImageInfo img) = ''latest'')
   \<and> (Contains img ''/'' \<and> \<not> Contains (drop (nat (LastIndex img ''/'') + 1) img) '':'' \<longrightarrow>
         tag (getImageInfo img) = ''latest'')"
proof (intro conjI impI)
  show "getImageInfo ''myreg.example.com/team/app:v2''
     = \<lparr>registry = ''myreg.example.com/team'', name = ''app'', tag = ''v2''\<rparr>"
    by (simp add: getImageInfo_def LastIndex_def Split_def genSplit.simps)
qed (simp_all add: getImageInfo_def Let_def)

theorem getImageInfo_splits_at_last_slash_witness:
  "\<not> Contains ''nginx'' ''/'' \<and> \<not> Contains ''nginx'' '':''
   \<and> registry (getImageInfo ''nginx'') = ''docker.io''
   \<and> name (getImageInfo ''nginx'') = ''nginx'' \<and> tag (getImageInfo ''nginx'') = ''latest''
   \<and> Contains ''reg.io/app'' ''/''
   \<and> \<not> Contains (drop (nat (LastIndex ''reg.io/app'' ''/'') + 1) ''reg.io/app'') '':''
   \<and> tag (getImageInfo ''reg.io/app'') = ''latest''"
  using getImageInfo_splits_at_last_slash [of "''nginx''"]
        getImageInfo_splits_at_last_slash [of "''reg.io/app''"]
  by (simp add: LastIndex_def)

section \<open>The signer-policy matcher of the legacy handler\<close>

text \<open>
  C4: \<open>hasMatchedSigner\<close> accepts exactly the non-empty signature lists when the
  handler holds no signer policy; it rejects the empty list whatever the policies are;
  and when there are policies and signatures it accepts exactly when the repository
  administrator key of the first signature is a target key of some signer named in some
  policy, the keys of a signer being those that the cluster returns for its name during
  this call (none when the lookup fails).  The lookups issued by a call are an initial
  part of the signer names of the policies in order, and all of them when nothing matches:
  each call asks the cluster again.
\<close>

theorem hasMatchedSigner_decision:
  "(signerPolicies h = [] \<longrightarrow> fst (hasMatchedSigner k h sigs) = (sigs \<noteq> []))
   \<and> \<not> fst (hasMatchedSigner k h [])
   \<and> (signerPolicies h \<noteq> [] \<and> sigs \<noteq> [] \<longrightarrow>
        fst (hasMatchedSigner k h sigs) =
          (\<exists>p\<in>set (signerPolicies h). \<exists>n\<in>set (PolicySigners p).
              k (sigs ! 0) \<in> set (Targets (lookupSignerKey h n))))
   \<and> prefix (snd (hasMatchedSigner k h sigs)) (concat (map PolicySigners (signerPolicies h)))
   \<and> (signerPolicies h \<noteq> [] \<and> sigs \<noteq> [] \<and> \<not> fst (hasMatchedSigner k h sigs) \<longrightarrow>
        snd (hasMatchedSigner k h sigs) = concat (map PolicySigners (signerPolicies h)))"
  using matchPolicies_asked [of h "k (sigs ! 0)" "signerPolicies h"]
  by (auto simp: hasMatchedSigner_def Let_def matchPolicies_found)

theorem hasMatchedSigner_decision_witness:
  "signerPolicies (demoHandler\<lparr>signerPolicies :=
       [\<lparr>PolicySigners = [''alice'']\<rparr>, \<lparr>PolicySigners = [''bob'']\<rparr>]\<rparr>) \<noteq> []
   \<and> [demoSignature] \<noteq> []
   \<and> hasMatchedSigner demoRepoAdminKey
        (demoHandler\<lparr>signerPolicies :=
           [\<lparr>PolicySigners = [''alice'']\<rparr>, \<lparr>PolicySigners = [''bob'']\<rparr>]\<rparr>)
        [demoSignature] = (True, [''alice'', ''bob''])
   \<and> hasMatchedSigner demoRepoAdminKey demoHandler [demoSignature] = (False, [''alice''])
   \<and> signerPolicies (demoHandler\<lparr>signerPolicies := []\<rparr>) = []
   \<and> hasMatchedSigner demoRepoAdminKey (demoHandler\<lparr>signerPolicies := []\<rparr>) [demoSignature]
       = (True, [])"
  using hasMatchedSigner_decision
          [of "demoHandler\<lparr>signerPolicies :=
                 [\<lparr>PolicySigners = [''alice'']\<rparr>, \<lparr>PolicySigners = [''bob'']\<rparr>]\<rparr>"
              demoRepoAdminKey "[demoSignature]"]
        hasMatchedSigner_decision
          [of "demoHandler\<lparr>signerPolicies := []\<rparr>" demoRepoAdminKey "[demoSignature]"]
  by (simp add: demo_defs hasMatchedSigner_def lookupSignerKey_def)

text \<open>
  C10: when \<open>hasMatchedSigner\<close> accepts a signature list, the list is not empty and
  \<open>getDigest\<close> returns a digest for it; \<open>isSignedImage\<close>, the only caller of
  \<open>getDigest\<close>, never ends in the index panic; and whenever it returns a digest, the
  digest is that of \<open>getDigest\<close> on signatures that \<open>hasMatchedSigner\<close> accepted.
\<close>

theorem getDigest_index_in_bounds:
  "(fst (hasMatchedSigner k h sigs) \<longrightarrow> sigs \<noteq> [] \<and> (\<exists>d. getDigest img sigs = Inr d))
   \<and> isSignedImage gs k h img \<noteq> Inl IndexOutOfRange
   \<and> (isSignedImage gs k h img = Inr (True, d') \<longrightarrow>
        (\<exists>sigs'. gs (fst (execToDockerDaemon h (makeCommand h (getImageInfo img)))) = Inr sigs'
            \<and> fst (hasMatchedSigner k h sigs') \<and> sigs' \<noteq> []
            \<and> getDigest img sigs' = Inr d'))"
proof (intro conjI impI)
  assume m: "fst (hasMatchedSigner k h sigs)"
  then show "sigs \<noteq> []" by (rule hasMatchedSigner_nonempty)
  then show "\<exists>d. getDigest img sigs = Inr d"
    by (cases "getDigest img sigs") (simp_all add: getDigest_panics_iff)
next
  show "isSignedImage gs k h img \<noteq> Inl IndexOutOfRange"
    by (auto simp: isSignedImage_def getDigest_panics_iff
          split: prod.splits sum.splits dest: hasMatchedSigner_nonempty)
next
  assume "isSignedImage gs k h img = Inr (True, d')"
  then show "\<exists>sigs'. gs (fst (execToDockerDaemon h (makeCommand h (getImageInfo img)))) = Inr sigs'
            \<and> fst (hasMatchedSigner k h sigs') \<and> sigs' \<noteq> []
            \<and> getDigest img sigs' = Inr d'"
    by (auto simp: isSignedImage_def split: prod.splits sum.splits if_splits
          dest: hasMatchedSigner_nonempty)
qed

theorem getDigest_index_in_bounds_witness:
  "fst (hasMatchedSigner demoRepoAdminKey (demoHandler\<lparr>signerPolicies := []\<rparr>) [demoSignature])
   \<and> getDigest ''reg.io/app:v1'' [demoSignature] = Inr ''abc123''
   \<and> isSignedImage demoGetSignatures demoRepoAdminKey (demoHandler\<lparr>signerPolicies := []\<rparr>)
        ''reg.io/app:v1'' = Inr (True, ''abc123'')"
  using getDigest_index_in_bounds
          [of demoRepoAdminKey "demoHandler\<lparr>signerPolicies := []\<rparr>" "[demoSignature]"
              "''reg.io/app:v1''" demoGetSignatures "''abc123''"]
  by (simp add: demo_defs hasMatchedSigner_def getDigest_def isSignedImage_def
        execToDockerDaemon_def makeCommand_def findNotaryServer_def)

section \<open>The validator: the verdict for a pod\<close>

text \<open>
  C1, on the code: \<open>addDigestWhenImageValid\<close> returns inside the loop as soon as one
  container that is not white-listed passes, so the containers after it are not looked
  at.  In namespace \<open>default\<close>, which is not white-listed, the pod with the containers
  \<open>open.io/tool:v3\<close> (its registry does not require signatures) and
  \<open>evil.io/miner:v1\<close> (its registry has no policy) is accepted, although the second
  container alone is rejected.
\<close>

theorem CheckIsValidAndAddDigest_accepts_after_first_pass:
  "\<not> IsNamespaceWhiteListed demoValidator (Namespace demoPod)
   \<and> fst (CheckIsValidAndAddDigest demoValidator demoPod) = (True, [], None)
   \<and> fst (addDigestWhenImageValid demoValidator [\<lparr>Image = ''evil.io/miner:v1''\<rparr>]
            (Namespace demoPod) (ImagePullSecrets demoPod))
       = (False, reasonNoPolicy ''evil.io/miner:v1'', None)"
  by (simp add: demo_defs CheckIsValidAndAddDigest_def)

section \<open>The validator: the registry policy\<close>

text \<open>
  The policy step for the container that the loop examines, that is, the first one
  that is not white-listed, when its image parses and the credential lookup returns.
  If no registry security policy matches the host of the image in the namespace, the
  loop rejects with the reason \<open>Image '...' does not meet registry security policy.
  Please check the RegistrySecurityPolicy\<close>; if a policy matches and its sign-check
  flag is false, the loop accepts.  In both cases no container is changed and the trust
  client is not called.
\<close>

lemma policy_lookup_decides:
  assumes "\<forall>w\<in>set ws. IsImageWhiteListed h (Image w)"
    and "\<not> IsImageWhiteListed h (Image c)"
    and "parseImage h (Image c) = Inr ref"
    and "getBasicAuthForRegistry h (host ref) ns ps = Inr basicAuth"
  shows "(\<not> fst (doesMatchPolicy h (host ref) ns) \<longrightarrow>
            addDigestWhenImageValid h (ws @ c # rest) ns ps =
              ((False,
                ''Image '' @ [CHR 0x27] @ Image c @ [CHR 0x27]
                  @ '' does not meet registry security policy. Please check the RegistrySecurityPolicy'',
                None),
               ws @ c # rest, []))
       \<and> (fst (doesMatchPolicy h (host ref) ns)
            \<and> \<not> SignCheck (snd (doesMatchPolicy h (host ref) ns)) \<longrightarrow>
            addDigestWhenImageValid h (ws @ c # rest) ns ps =
              ((True, [], None), ws @ c # rest, []))"
  using assms
  by (simp add: addDigest_skip_whitelisted reasonNoPolicy_def quoted_def split: prod.splits)

text \<open>
  C5, on the code: a container that is not white-listed and whose registry has no
  security policy is not rejected when a container before it in the same list has
  passed, because the loop returns at that earlier container.  In the pod below the
  first container, \<open>reg.io/app:v1\<close>, passes the signature check and is rewritten;
  \<open>evil.io/miner:v1\<close>, for whose host no policy matches, is never examined and the
  pod is accepted.  Examined alone, the same container is rejected with the reason that
  names the registry security policy.
\<close>

theorem container_without_policy_admitted:
  "\<not> IsNamespaceWhiteListed demoValidator ''default''
   \<and> \<not> IsImageWhiteListed demoValidator ''evil.io/miner:v1''
   \<and> parseImage demoValidator ''evil.io/miner:v1''
       = Inr \<lparr>host = ''evil.io'', repository = ''miner'', ref_tag = ''v1'', digest = []\<rparr>
   \<and> \<not> fst (doesMatchPolicy demoValidator ''evil.io'' ''default'')
   \<and> CheckIsValidAndAddDigest demoValidator
        \<lparr>Namespace = ''default'', InitContainers = [],
         Containers = [\<lparr>Image = ''reg.io/app:v1''\<rparr>, \<lparr>Image = ''evil.io/miner:v1''\<rparr>],
         ImagePullSecrets = [''regcred'']\<rparr>
       = ((True, [], None),
          \<lparr>Namespace = ''default'', InitContainers = [],
           Containers = [\<lparr>Image = ''reg.io/app:v1@sha256:abc123''\<rparr>,
                         \<lparr>Image = ''evil.io/miner:v1''\<rparr>],
           ImagePullSecrets = [''regcred'']\<rparr>,
          [(''reg.io/app:v1'', ''dXNlcjpwdw=='', ''https://notary.reg.io'')])
   \<and> addDigestWhenImageValid demoValidator [\<lparr>Image = ''evil.io/miner:v1''\<rparr>]
        ''default'' [''regcred'']
       = ((False,
           ''Image 'evil.io/miner:v1' does not meet registry security policy. Please check the RegistrySecurityPolicy'',
           None),
          [\<lparr>Image = ''evil.io/miner:v1''\<rparr>], [])"
  by (simp add: demo_defs CheckIsValidAndAddDigest_def)

section \<open>The validator: the trust summary\<close>

text \<open>
  C3, as the specification states it, fails: the validator holds no signer policy and
  runs no matcher.  The summary of \<open>reg.io/app:v1\<close> carries the administrator key
  \<open>mallory-key\<close>; the signer policy names only \<open>alice\<close>, whose key is another one, so
  the signer-policy matcher rejects the summary.  The validator accepts the container
  all the same.
\<close>

theorem unauthorized_signer_accepted_counterexample:
  "\<not> fst (hasMatchedSigner demoRepoAdminKey demoHandler [demoSignature])
   \<and> SignCheck (snd (doesMatchPolicy demoValidator ''reg.io'' ''default''))
   \<and> FetchSignature demoValidator ''reg.io/app:v1'' ''dXNlcjpwdw=='' ''https://notary.reg.io''
       = Inr (Some demoSignature)
   \<and> fst (addDigestWhenImageValid demoValidator [\<lparr>Image = ''reg.io/app:v1''\<rparr>]
            ''default'' [''other'', ''regcred''])
       = (True, [], None)
   \<and> fst (addDigestWhenImageValid demoValidator [\<lparr>Image = ''reg.io/app:v1''\<rparr>]
            ''default'' [''other'', ''regcred''])
       \<noteq> (False, reasonNotSigned ''reg.io/app:v1'', None)"
  by (simp add: demo_defs hasMatchedSigner_def lookupSignerKey_def)

text \<open>
  C3, amended: for a container that requires a signature check and whose fetched trust
  summary is not nil, the validator consults no signer policy: it rejects with the
  digest reason when an explicit digest differs from the resolved one and accepts
  otherwise.  The signer-policy matcher is run by the legacy handler only: when the
  output of the trust inspection decodes and the matcher finds no authorized signer,
  \<open>isSignedImage\<close> returns \<open>(false, "")\<close>, which is also its result for an image with
  no signatures.
\<close>

theorem signature_check_without_signer_policy:
  assumes "\<forall>w\<in>set ws. IsImageWhiteListed h (Image w)"
    and "\<not> IsImageWhiteListed h (Image c)"
    and "parseImage h (Image c) = Inr ref"
    and "getBasicAuthForRegistry h (host ref) ns ps = Inr basicAuth"
    and "doesMatchPolicy h (host ref) ns = (True, policy)"
    and "Registry policy \<noteq> []" and "SignCheck policy"
    and "FetchSignature h (Image c) basicAuth (Notary policy) = Inr (Some sig)"
  shows "fst (addDigestWhenImageValid h (ws @ c # rest) ns ps) =
           (if digest ref \<noteq> [] \<and> digest ref \<noteq> GetDigest h sig (ref_tag ref)
            then (False, reasonDigestDiffers (Image c), None)
            else (True, [], None))
       \<and> (fst (execToDockerDaemon dh (makeCommand dh (getImageInfo img))) \<noteq> []
            \<and> gs (fst (execToDockerDaemon dh (makeCommand dh (getImageInfo img)))) = Inr sigs
            \<and> \<not> fst (hasMatchedSigner k dh sigs) \<longrightarrow>
          isSignedImage gs k dh img = Inr (False, []))"
  using addDigest_signature_check [OF assms(1-7), of rest] assms(8)
  by (auto simp: isSignedImage_def split: prod.splits)

theorem signature_check_without_signer_policy_witness:
  "fst (addDigestWhenImageValid demoValidator
          [\<lparr>Image = ''k8s.gcr.io/pause:3.2''\<rparr>, \<lparr>Image = ''reg.io/app:v1''\<rparr>]
          ''default'' [''other'', ''regcred''])
     = (True, [], None)
   \<and> fst (execToDockerDaemon demoHandler (makeCommand demoHandler (getImageInfo ''reg.io/app:v1'')))
       \<noteq> []
   \<and> demoGetSignatures
        (fst (execToDockerDaemon demoHandler (makeCommand demoHandler (getImageInfo ''reg.io/app:v1''))))
       = Inr [demoSignature]
   \<and> \<not> fst (hasMatchedSigner demoRepoAdminKey demoHandler [demoSignature])
   \<and> isSignedImage demoGetSignatures demoRepoAdminKey demoHandler ''reg.io/app:v1'' = Inr (False, [])
   \<and> demoGetSignatures
        (fst (execToDockerDaemon (demoHandler\<lparr>ExecCmd := (\<lambda>command. (''[]'', None))\<rparr>)
               (makeCommand (demoHandler\<lparr>ExecCmd := (\<lambda>command. (''[]'', None))\<rparr>)
                  (getImageInfo ''reg.io/app:v1''))))
       = Inr []
   \<and> isSignedImage demoGetSignatures demoRepoAdminKey
        (demoHandler\<lparr>ExecCmd := (\<lambda>command. (''[]'', None))\<rparr>) ''reg.io/app:v1'' = Inr (False, [])"
proof -
  have l: "fst (execToDockerDaemon demoHandler (makeCommand demoHandler (getImageInfo ''reg.io/app:v1'')))
       = ''trust data''"
    "fst (execToDockerDaemon (demoHandler\<lparr>ExecCmd := (\<lambda>command. (''[]'', None))\<rparr>)
               (makeCommand (demoHandler\<lparr>ExecCmd := (\<lambda>command. (''[]'', None))\<rparr>)
                  (getImageInfo ''reg.io/app:v1''))) = ''[]''"
    by (simp_all add: execToDockerDaemon_def demoHandler_def)
  have m: "\<not> fst (hasMatchedSigner demoRepoAdminKey demoHandler [demoSignature])"
    "\<not> fst (hasMatchedSigner demoRepoAdminKey
              (demoHandler\<lparr>ExecCmd := (\<lambda>command. (''[]'', None))\<rparr>) [])"
    by (simp_all add: demo_defs hasMatchedSigner_def lookupSignerKey_def)
  have g: "demoGetSignatures ''trust data'' = Inr [demoSignature]" "demoGetSignatures ''[]'' = Inr []"
    by (simp_all add: demoGetSignatures_def)
  from signature_check_without_signer_policy
         [OF demo_checks(1,4,5), of "''default''" "[''other'', ''regcred'']" "''dXNlcjpwdw==''"
             "\<lparr>Registry = ''reg.io'', Notary = ''https://notary.reg.io'', SignCheck = True\<rparr>"
             demoSignature "[]" demoHandler "''reg.io/app:v1''" demoGetSignatures "[demoSignature]"
             demoRepoAdminKey]
       signature_check_without_signer_policy
         [OF demo_checks(1,4,5), of "''default''" "[''other'', ''regcred'']" "''dXNlcjpwdw==''"
             "\<lparr>Registry = ''reg.io'', Notary = ''https://notary.reg.io'', SignCheck = True\<rparr>"
             demoSignature "[]" "demoHandler\<lparr>ExecCmd := (\<lambda>command. (''[]'', None))\<rparr>"
             "''reg.io/app:v1''" demoGetSignatures "[]" demoRepoAdminKey]
       demo_checks l m g
  show ?thesis by simp
qed

text \<open>
  C6: let the container that the validation examines (in the init containers, or in the
  containers when the init containers pass) reach the signature check.  When the trust
  client returns no summary, the validation returns not valid, the reason
  \<open>Image '...' is not signed\<close> with the image of the container, and no error.  When
  the trust client returns an error, the validation returns that error with an empty
  reason, which is not the rejection for an unsigned image.
\<close>

theorem fetch_nil_rejects_and_error_propagates:
  assumes "\<not> IsNamespaceWhiteListed h (Namespace pod)"
    and "InitContainers pod = ws @ c # rest
         \<or> (fst (addDigestWhenImageValid h (InitContainers pod) (Namespace pod) (ImagePullSecrets pod))
              = (True, [], None)
            \<and> Containers pod = ws @ c # rest)"
    and "\<forall>w\<in>set ws. IsImageWhiteListed h (Image w)"
    and "\<not> IsImageWhiteListed h (Image c)"
    and "parseImage h (Image c) = Inr ref"
    and "getBasicAuthForRegistry h (host ref) (Namespace pod) (ImagePullSecrets pod) = Inr basicAuth"
    and "doesMatchPolicy h (host ref) (Namespace pod) = (True, policy)"
    and "Registry policy \<noteq> []" and "SignCheck policy"
  shows "(FetchSignature h (Image c) basicAuth (Notary policy) = Inr None \<longrightarrow>
            fst (CheckIsValidAndAddDigest h pod)
              = (False, ''Image '' @ [CHR 0x27] @ Image c @ [CHR 0x27] @ '' is not signed'', None)
          \<and> fst (addDigestWhenImageValid h (ws @ c # rest) (Namespace pod) (ImagePullSecrets pod))
              = (False, ''Image '' @ [CHR 0x27] @ Image c @ [CHR 0x27] @ '' is not signed'', None))
       \<and> (\<forall>e. FetchSignature h (Image c) basicAuth (Notary policy) = Inl e \<longrightarrow>
            fst (CheckIsValidAndAddDigest h pod) = (False, [], Some e)
          \<and> fst (CheckIsValidAndAddDigest h pod)
              \<noteq> (False, ''Image '' @ [CHR 0x27] @ Image c @ [CHR 0x27] @ '' is not signed'', None)
          \<and> fst (addDigestWhenImageValid h (ws @ c # rest) (Namespace pod) (ImagePullSecrets pod))
              = (False, [], Some e))"
proof -
  note sc = addDigest_signature_check [OF assms(3-9), of rest]
  show ?thesis
    using assms(2)
    by (auto simp: Check_verdict [OF assms(1)] sc reasonNotSigned_def quoted_def)
qed

theorem fetch_nil_rejects_and_error_propagates_witness:
  "\<not> IsNamespaceWhiteListed demoValidator ''default''
   \<and> FetchSignature demoValidator ''reg.io/unsigned:v1'' ''dXNlcjpwdw=='' ''https://notary.reg.io''
       = Inr None
   \<and> fst (CheckIsValidAndAddDigest demoValidator
        \<lparr>Namespace = ''default'',
         InitContainers = [\<lparr>Image = ''k8s.gcr.io/pause:3.2''\<rparr>, \<lparr>Image = ''reg.io/unsigned:v1''\<rparr>],
         Containers = [], ImagePullSecrets = [''regcred'']\<rparr>)
       = (False, ''Image 'reg.io/unsigned:v1' is not signed'', None)
   \<and> FetchSignature demoValidator ''reg.io/down:v1'' ''dXNlcjpwdw=='' ''https://notary.reg.io''
       = Inl (Err ''connection refused'')
   \<and> fst (CheckIsValidAndAddDigest demoValidator
        \<lparr>Namespace = ''default'',
         InitContainers = [\<lparr>Image = ''k8s.gcr.io/pause:3.2''\<rparr>],
         Containers = [\<lparr>Image = ''reg.io/down:v1''\<rparr>], ImagePullSecrets = [''regcred'']\<rparr>)
       = (False, [], Some (Err ''connection refused''))"
proof -
  let ?podA = "\<lparr>Namespace = ''default'',
         InitContainers = [\<lparr>Image = ''k8s.gcr.io/pause:3.2''\<rparr>, \<lparr>Image = ''reg.io/unsigned:v1''\<rparr>],
         Containers = [], ImagePullSecrets = [''regcred'']\<rparr>"
  let ?podB = "\<lparr>Namespace = ''default'',
         InitContainers = [\<lparr>Image = ''k8s.gcr.io/pause:3.2''\<rparr>],
         Containers = [\<lparr>Image = ''reg.io/down:v1''\<rparr>], ImagePullSecrets = [''regcred'']\<rparr>"
  let ?policy = "\<lparr>Registry = ''reg.io'', Notary = ''https://notary.reg.io'', SignCheck = True\<rparr>"
  have nsA: "\<not> IsNamespaceWhiteListed demoValidator (Namespace ?podA)"
    and nsB: "\<not> IsNamespaceWhiteListed demoValidator (Namespace ?podB)"
    by (simp_all add: demo_defs)
  have whereA: "InitContainers ?podA
        = [\<lparr>Image = ''k8s.gcr.io/pause:3.2''\<rparr>] @ \<lparr>Image = ''reg.io/unsigned:v1''\<rparr> # []
     \<or> (fst (addDigestWhenImageValid demoValidator (InitContainers ?podA) (Namespace ?podA)
                (ImagePullSecrets ?podA)) = (True, [], None)
        \<and> Containers ?podA
            = [\<lparr>Image = ''k8s.gcr.io/pause:3.2''\<rparr>] @ \<lparr>Image = ''reg.io/unsigned:v1''\<rparr> # [])"
    by simp
  have whereB: "InitContainers ?podB = [] @ \<lparr>Image = ''reg.io/down:v1''\<rparr> # []
     \<or> (fst (addDigestWhenImageValid demoValidator (InitContainers ?podB) (Namespace ?podB)
                (ImagePullSecrets ?podB)) = (True, [], None)
        \<and> Containers ?podB = [] @ \<lparr>Image = ''reg.io/down:v1''\<rparr> # [])"
    by (simp add: demo_defs)
  have wl: "\<forall>w\<in>set [\<lparr>Image = ''k8s.gcr.io/pause:3.2''\<rparr>]. IsImageWhiteListed demoValidator (Image w)"
    "\<forall>w\<in>set []. IsImageWhiteListed demoValidator (Image w)"
    by (simp_all add: demo_defs)
  have nw: "\<not> IsImageWhiteListed demoValidator (Image \<lparr>Image = ''reg.io/unsigned:v1''\<rparr>)"
    "\<not> IsImageWhiteListed demoValidator (Image \<lparr>Image = ''reg.io/down:v1''\<rparr>)"
    by (simp_all add: demo_defs)
  have pa: "parseImage demoValidator (Image \<lparr>Image = ''reg.io/unsigned:v1''\<rparr>)
      = Inr \<lparr>host = ''reg.io'', repository = ''unsigned'', ref_tag = ''v1'', digest = []\<rparr>"
    and pb: "parseImage demoValidator (Image \<lparr>Image = ''reg.io/down:v1''\<rparr>)
      = Inr \<lparr>host = ''reg.io'', repository = ''down'', ref_tag = ''v1'', digest = []\<rparr>"
    by (simp_all add: demo_defs)
  have aa: "getBasicAuthForRegistry demoValidator
       (host \<lparr>host = ''reg.io'', repository = ''unsigned'', ref_tag = ''v1'', digest = []\<rparr>)
       (Namespace ?podA) (ImagePullSecrets ?podA) = Inr ''dXNlcjpwdw==''"
    and ab: "getBasicAuthForRegistry demoValidator
       (host \<lparr>host = ''reg.io'', repository = ''down'', ref_tag = ''v1'', digest = []\<rparr>)
       (Namespace ?podB) (ImagePullSecrets ?podB) = Inr ''dXNlcjpwdw==''"
    by (simp_all add: demo_defs)
  have da: "doesMatchPolicy demoValidator
       (host \<lparr>host = ''reg.io'', repository = ''unsigned'', ref_tag = ''v1'', digest = []\<rparr>)
       (Namespace ?podA) = (True, ?policy)"
    and db: "doesMatchPolicy demoValidator
       (host \<lparr>host = ''reg.io'', repository = ''down'', ref_tag = ''v1'', digest = []\<rparr>)
       (Namespace ?podB) = (True, ?policy)"
    by (simp_all add: demo_defs)
  have pol: "Registry ?policy \<noteq> []" "SignCheck ?policy" by simp_all
  have f: "FetchSignature demoValidator ''reg.io/unsigned:v1'' ''dXNlcjpwdw=='' ''https://notary.reg.io''
       = Inr None"
    "FetchSignature demoValidator ''reg.io/down:v1'' ''dXNlcjpwdw=='' ''https://notary.reg.io''
       = Inl (Err ''connection refused'')"
    by (simp_all add: demo_defs)
  from fetch_nil_rejects_and_error_propagates [OF nsA whereA wl(1) nw(1) pa aa da pol]
       fetch_nil_rejects_and_error_propagates [OF nsB whereB wl(2) nw(2) pb ab db pol] f nsA
  show ?thesis by simp
qed

text \<open>
  The digest step for the container that the loop examines, when it reaches the
  signature check with a trust summary.  If its reference carries an explicit digest
  that differs from the digest that the summary gives for its tag, the loop rejects with
  the reason \<open>Image '...''s digest is different from the signed digest\<close> and leaves
  every container as it was.  If there is no explicit digest or the digests agree, the
  image of this container, and of no other, is rewritten.  And whenever the loop changes
  the container list at all, it is on this path, with no explicit digest or with equal
  digests.
\<close>

lemma digest_mismatch_rejects_unchanged:
  assumes "\<forall>w\<in>set ws. IsImageWhiteListed h (Image w)"
    and "\<not> IsImageWhiteListed h (Image c)"
    and "parseImage h (Image c) = Inr ref"
    and "getBasicAuthForRegistry h (host ref) ns ps = Inr basicAuth"
    and "doesMatchPolicy h (host ref) ns = (True, policy)"
    and "Registry policy \<noteq> []" and "SignCheck policy"
    and "FetchSignature h (Image c) basicAuth (Notary policy) = Inr (Some sig)"
  shows "(digest ref \<noteq> [] \<and> digest ref \<noteq> GetDigest h sig (ref_tag ref) \<longrightarrow>
            addDigestWhenImageValid h (ws @ c # rest) ns ps =
              ((False,
                ''Image '' @ [CHR 0x27] @ Image c @ [CHR 0x27, CHR 0x27]
                  @ ''s digest is different from the signed digest'',
                None),
               ws @ c # rest,
               [(Image c, basicAuth, Notary policy)]))
       \<and> (digest ref = [] \<or> digest ref = GetDigest h sig (ref_tag ref) \<longrightarrow>
            addDigestWhenImageValid h (ws @ c # rest) ns ps =
              ((True, [], None),
               ws @ c\<lparr>Image := RefString h (ref\<lparr>digest := GetDigest h sig (ref_tag ref)\<rparr>)\<rparr> # rest,
               [(Image c, basicAuth, Notary policy)]))
       \<and> (\<forall>cs. fst (snd (addDigestWhenImageValid h cs ns ps)) \<noteq> cs \<longrightarrow>
            (\<exists>ws' c' rest' ref' basicAuth' policy' sig'.
               cs = ws' @ c' # rest' \<and> (\<forall>w\<in>set ws'. IsImageWhiteListed h (Image w))
             \<and> \<not> IsImageWhiteListed h (Image c')
             \<and> parseImage h (Image c') = Inr ref'
             \<and> getBasicAuthForRegistry h (host ref') ns ps = Inr basicAuth'
             \<and> doesMatchPolicy h (host ref') ns = (True, policy')
             \<and> SignCheck policy'
             \<and> FetchSignature h (Image c') basicAuth' (Notary policy') = Inr (Some sig')
             \<and> (digest ref' = [] \<or> digest ref' = GetDigest h sig' (ref_tag ref'))))"
proof (intro conjI allI impI)
  fix cs
  assume "fst (snd (addDigestWhenImageValid h cs ns ps)) \<noteq> cs"
  then show "\<exists>ws' c' rest' ref' basicAuth' policy' sig'.
               cs = ws' @ c' # rest' \<and> (\<forall>w\<in>set ws'. IsImageWhiteListed h (Image w))
             \<and> \<not> IsImageWhiteListed h (Image c')
             \<and> parseImage h (Image c') = Inr ref'
             \<and> getBasicAuthForRegistry h (host ref') ns ps = Inr basicAuth'
             \<and> doesMatchPolicy h (host ref') ns = (True, policy')
             \<and> SignCheck policy'
             \<and> FetchSignature h (Image c') basicAuth' (Notary policy') = Inr (Some sig')
             \<and> (digest ref' = [] \<or> digest ref' = GetDigest h sig' (ref_tag ref'))"
    by (rule addDigest_rewrite_only)
qed (use addDigest_signature_check [OF assms(1-7), of rest] assms(8) in \<open>auto simp: reasonDigestDiffers_def quoted_def\<close>)

text \<open>
  C7, on the code: a container whose explicit digest differs from the signed digest of
  its tag is not rejected when a container before it in the same list has passed,
  because the loop returns at that earlier container.  In the pod below
  \<open>open.io/tool:v3\<close> passes (its registry does not require signatures), and
  \<open>reg.io/app:v1@sha256:ffff\<close>, whose tag is signed with digest \<open>abc123\<close>, is never
  examined: the pod is accepted, the image is left as it was and the trust client is
  not called.  Examined alone, the same container is rejected with the digest reason
  and left unchanged.
\<close>

theorem container_with_other_digest_admitted:
  "\<not> IsNamespaceWhiteListed demoValidator ''default''
   \<and> \<not> IsImageWhiteListed demoValidator ''reg.io/app:v1@sha256:ffff''
   \<and> parseImage demoValidator ''reg.io/app:v1@sha256:ffff''
       = Inr \<lparr>host = ''reg.io'', repository = ''app'', ref_tag = ''v1'', digest = ''ffff''\<rparr>
   \<and> FetchSignature demoValidator ''reg.io/app:v1@sha256:ffff'' ''dXNlcjpwdw==''
        ''https://notary.reg.io'' = Inr (Some demoSignature)
   \<and> GetDigest demoValidator demoSignature ''v1'' = ''abc123''
   \<and> CheckIsValidAndAddDigest demoValidator
        \<lparr>Namespace = ''default'', InitContainers = [],
         Containers = [\<lparr>Image = ''open.io/tool:v3''\<rparr>,
                       \<lparr>Image = ''reg.io/app:v1@sha256:ffff''\<rparr>],
         ImagePullSecrets = [''regcred'']\<rparr>
       = ((True, [], None),
          \<lparr>Namespace = ''default'', InitContainers = [],
           Containers = [\<lparr>Image = ''open.io/tool:v3''\<rparr>,
                         \<lparr>Image = ''reg.io/app:v1@sha256:ffff''\<rparr>],
           ImagePullSecrets = [''regcred'']\<rparr>,
          [])
   \<and> addDigestWhenImageValid demoValidator [\<lparr>Image = ''reg.io/app:v1@sha256:ffff''\<rparr>]
        ''default'' [''regcred'']
       = ((False,
           ''Image 'reg.io/app:v1@sha256:ffff'' @ [CHR 0x27, CHR 0x27]
             @ ''s digest is different from the signed digest'',
           None),
          [\<lparr>Image = ''reg.io/app:v1@sha256:ffff''\<rparr>],
          [(''reg.io/app:v1@sha256:ffff'', ''dXNlcjpwdw=='', ''https://notary.reg.io'')])"
  by (simp add: demo_defs CheckIsValidAndAddDigest_def)

section \<open>The validator: pull secrets\<close>

text \<open>
  C9, as the specification states it, fails: a listed secret that the cluster does not
  have makes the lookup fail, whether or not a later secret holds a credential.
\<close>

theorem missing_pull_secret_fails_counterexample:
  "getBasicAuthForRegistry demoValidator ''reg.io'' ''default'' [''missing'']
     = Inl (Err ''couldn't get secret named missing by secrets not found'')
   \<and> getBasicAuthForRegistry demoValidator ''reg.io'' ''default'' [''missing''] \<noteq> Inr []
   \<and> getBasicAuthForRegistry demoValidator ''reg.io'' ''default'' [''regcred'']
     = Inr ''dXNlcjpwdw==''
   \<and> getBasicAuthForRegistry demoValidator ''reg.io'' ''default'' [''missing'', ''regcred'']
     = Inl (Err ''couldn't get secret named missing by secrets not found'')
   \<and> getBasicAuthForRegistry demoValidator ''reg.io'' ''default'' [''missing'', ''regcred'']
     \<noteq> Inr ''dXNlcjpwdw==''"
  by (simp add: demo_defs)

text \<open>
  C9, amended: the lookup goes through the listed secrets in order.  If every listed
  secret is fetched and decoded and none carries a credential for the host, the lookup
  returns the empty credential and no error.  The first secret that yields a non-empty
  credential wins, provided every secret before it was fetched and decoded and carried
  none.  A secret that cannot be fetched or decoded, reached before any credential is
  found, ends the lookup with its error.
\<close>

theorem getBasicAuthForRegistry_outcomes:
  "((\<forall>p\<in>set pullSecrets. pullSecretYields h hst ns p = Inr []) \<longrightarrow>
      getBasicAuthForRegistry h hst ns pullSecrets = Inr [])
   \<and> ((\<forall>p\<in>set pre. pullSecretYields h hst ns p = Inr [])
        \<and> pullSecretYields h hst ns s = Inr basicAuth \<and> basicAuth \<noteq> [] \<longrightarrow>
      getBasicAuthForRegistry h hst ns (pre @ s # post) = Inr basicAuth)
   \<and> ((\<forall>p\<in>set pre. pullSecretYields h hst ns p = Inr [])
        \<and> pullSecretYields h hst ns s = Inl err \<longrightarrow>
      getBasicAuthForRegistry h hst ns (pre @ s # post) = Inl err)"
proof (intro conjI impI)
  assume "\<forall>p\<in>set pullSecrets. pullSecretYields h hst ns p = Inr []"
  from getBasicAuth_skip [OF this, of "[]"]
  show "getBasicAuthForRegistry h hst ns pullSecrets = Inr []" by simp
next
  assume "(\<forall>p\<in>set pre. pullSecretYields h hst ns p = Inr [])
        \<and> pullSecretYields h hst ns s = Inr basicAuth \<and> basicAuth \<noteq> []"
  then show "getBasicAuthForRegistry h hst ns (pre @ s # post) = Inr basicAuth"
    by (simp add: getBasicAuth_skip getBasicAuth_head del: getBasicAuthForRegistry.simps)
next
  assume "(\<forall>p\<in>set pre. pullSecretYields h hst ns p = Inr [])
        \<and> pullSecretYields h hst ns s = Inl err"
  then show "getBasicAuthForRegistry h hst ns (pre @ s # post) = Inl err"
    by (simp add: getBasicAuth_skip getBasicAuth_head del: getBasicAuthForRegistry.simps)
qed

theorem getBasicAuthForRegistry_outcomes_witness:
  "pullSecretYields demoValidator ''reg.io'' ''default'' ''other'' = Inr []
   \<and> getBasicAuthForRegistry demoValidator ''reg.io'' ''default'' [''other'', ''other''] = Inr []
   \<and> pullSecretYields demoValidator ''reg.io'' ''default'' ''regcred'' = Inr ''dXNlcjpwdw==''
   \<and> getBasicAuthForRegistry demoValidator ''reg.io'' ''default''
        ([''other'', ''other''] @ ''regcred'' # [''missing'']) = Inr ''dXNlcjpwdw==''
   \<and> pullSecretYields demoValidator ''reg.io'' ''default'' ''missing''
        = Inl (Err ''couldn't get secret named missing by secrets not found'')
   \<and> getBasicAuthForRegistry demoValidator ''reg.io'' ''default''
        ([''other'', ''other''] @ ''missing'' # [''regcred''])
        = Inl (Err ''couldn't get secret named missing by secrets not found'')"
proof -
  have y: "pullSecretYields demoValidator ''reg.io'' ''default'' ''other'' = Inr []"
    "pullSecretYields demoValidator ''reg.io'' ''default'' ''regcred'' = Inr ''dXNlcjpwdw==''"
    "pullSecretYields demoValidator ''reg.io'' ''default'' ''missing''
        = Inl (Err ''couldn't get secret named missing by secrets not found'')"
    by (simp_all add: pullSecretYields_def demo_defs)
  from getBasicAuthForRegistry_outcomes
         [of "[''other'', ''other'']" demoValidator "''reg.io''" "''default''"
             "[''other'', ''other'']" "''regcred''" "''dXNlcjpwdw==''" "[''missing'']"]
       getBasicAuthForRegistry_outcomes
         [of "[''other'', ''other'']" demoValidator "''reg.io''" "''default''"
             "[''other'', ''other'']" "''missing''" "[]" "[''regcred'']"
             "Err ''couldn't get secret named missing by secrets not found''"]
       y
  show ?thesis by simp
qed

section \<open>The trust summary produced by the reduction\<close>

text \<open>
  C8: in every trust summary that \<open>GetSignedMetadata\<close> returns, each signed-tag row
  belongs to a target released by \<open>targets\<close> or \<open>targets/releases\<close> and lists the
  delegated signers of its tag and digest, or \<open>Repo Admin\<close> alone when there are none;
  and every entry of the signer list comes from a delegation role that is neither
  \<open>targets\<close> nor \<open>targets/releases\<close>, carries the name of that role with the
  \<open>targets/\<close> prefix stripped, and carries its key IDs.
\<close>

theorem GetSignedMetadata_attribution:
  "(\<forall>row\<in>set (SignedTags (fst (GetSignedMetadata lt n tg))).
      \<exists>ts. GetAllTargetMetadataByName n tg = Inr ts
        \<and> (\<exists>t\<in>set ts. isReleasedTarget (TargetRole t)
                \<and> targetKey t = (SignedTag row, Digest row))
        \<and> Signers row =
            (if delegatedSigners ts (SignedTag row, Digest row) = [] then [releasedRoleName]
             else delegatedSigners ts (SignedTag row, Digest row)))
 \<and> (\<forall>signer\<in>set (RepoSigners (fst (GetSignedMetadata lt n tg))).
      \<exists>r\<in>set (fst (GetDelegationRoles n)).
         RoleName r \<noteq> CanonicalTargetsRole \<and> RoleName r \<noteq> ReleasesRole
       \<and> Name signer = TrimPrefix (RoleName r) ''targets/''
       \<and> Keys signer = toKeys (KeyIDs r))"
proof (intro conjI ballI)
  fix row
  assume r: "row \<in> set (SignedTags (fst (GetSignedMetadata lt n tg)))"
  then obtain ts where ts: "GetAllTargetMetadataByName n tg = Inr ts"
    by (cases "GetAllTargetMetadataByName n tg")
       (auto simp: GetSignedMetadata_def emptyTrustRepo_def)
  with r obtain roles where roles: "ListRoles n = Inr roles"
    by (cases "ListRoles n") (auto simp: GetSignedMetadata_def emptyTrustRepo_def Let_def)
  from r ts roles obtain row0 where row0: "row0 \<in> set (matchReleasedSignatures lt ts)"
    and row: "row = (if length (Signers row0) = 0
                     then row0\<lparr>Signers := Signers row0 @ [releasedRoleName]\<rparr> else row0)"
    by (auto simp: GetSignedMetadata_def Let_def)
  from matchReleasedSignatures_rows [OF row0] row
  have "(\<exists>t\<in>set ts. isReleasedTarget (TargetRole t)
                \<and> targetKey t = (SignedTag row, Digest row))
        \<and> Signers row =
            (if delegatedSigners ts (SignedTag row, Digest row) = [] then [releasedRoleName]
             else delegatedSigners ts (SignedTag row, Digest row))"
    by (auto split: if_splits)
  with ts show "\<exists>ts. GetAllTargetMetadataByName n tg = Inr ts
        \<and> (\<exists>t\<in>set ts. isReleasedTarget (TargetRole t)
                \<and> targetKey t = (SignedTag row, Digest row))
        \<and> Signers row =
            (if delegatedSigners ts (SignedTag row, Digest row) = [] then [releasedRoleName]
             else delegatedSigners ts (SignedTag row, Digest row))"
    by blast
next
  fix signer
  assume s: "signer \<in> set (RepoSigners (fst (GetSignedMetadata lt n tg)))"
  then obtain ts where ts: "GetAllTargetMetadataByName n tg = Inr ts"
    by (cases "GetAllTargetMetadataByName n tg")
       (auto simp: GetSignedMetadata_def emptyTrustRepo_def)
  with s obtain roles where roles: "ListRoles n = Inr roles"
    by (cases "ListRoles n") (auto simp: GetSignedMetadata_def emptyTrustRepo_def Let_def)
  from s ts roles obtain k v where
    kv: "(k, v) \<in> set (getDelegationRoleToKeyMap (fst (GetDelegationRoles n)))"
    and sg: "signer = \<lparr>Name = k, Keys = toKeys v\<rparr>"
    by (auto simp: GetSignedMetadata_def Let_def set_sortSlice)
  from getDelegationRoleToKeyMap_entries [OF kv] sg
  show "\<exists>r\<in>set (fst (GetDelegationRoles n)).
         RoleName r \<noteq> CanonicalTargetsRole \<and> RoleName r \<noteq> ReleasesRole
       \<and> Name signer = TrimPrefix (RoleName r) ''targets/''
       \<and> Keys signer = toKeys (KeyIDs r)"
    by auto
qed

theorem GetSignedMetadata_attribution_witness:
  "\<lparr>SignedTag = ''v2'', Digest = ''12'', Signers = [''Repo Admin'']\<rparr>
      \<in> set (SignedTags (fst (GetSignedMetadata (\<lambda>a b. a < b) demoRepo ''v1'')))
   \<and> (\<exists>ts. GetAllTargetMetadataByName demoRepo ''v1'' = Inr ts
        \<and> (\<exists>t\<in>set ts. isReleasedTarget (TargetRole t) \<and> targetKey t = (''v2'', ''12''))
        \<and> [''Repo Admin''] =
            (if delegatedSigners ts (''v2'', ''12'') = [] then [releasedRoleName]
             else delegatedSigners ts (''v2'', ''12'')))
   \<and> \<lparr>Name = ''alice'', Keys = [\<lparr>ID = ''alice-key''\<rparr>]\<rparr>
      \<in> set (RepoSigners (fst (GetSignedMetadata (\<lambda>a b. a < b) demoRepo ''v1'')))
   \<and> (\<exists>r\<in>set (fst (GetDelegationRoles demoRepo)).
         RoleName r \<noteq> CanonicalTargetsRole \<and> RoleName r \<noteq> ReleasesRole
       \<and> ''alice'' = TrimPrefix (RoleName r) ''targets/''
       \<and> [\<lparr>ID = ''alice-key''\<rparr>] = toKeys (KeyIDs r))"
proof -
  have m1: "\<lparr>SignedTag = ''v2'', Digest = ''12'', Signers = [''Repo Admin'']\<rparr>
      \<in> set (SignedTags (fst (GetSignedMetadata (\<lambda>a b. a < b) demoRepo ''v1'')))"
    by code_simp
  have m3: "\<lparr>Name = ''alice'', Keys = [\<lparr>ID = ''alice-key''\<rparr>]\<rparr>
      \<in> set (RepoSigners (fst (GetSignedMetadata (\<lambda>a b. a < b) demoRepo ''v1'')))"
    by code_simp
  note a = GetSignedMetadata_attribution [of "\<lambda>a b. a < b" demoRepo "''v1''"]
  from a have rows: "\<forall>row\<in>set (SignedTags (fst (GetSignedMetadata (\<lambda>a b. a < b) demoRepo ''v1''))).
      \<exists>ts. GetAllTargetMetadataByName demoRepo ''v1'' = Inr ts
        \<and> (\<exists>t\<in>set ts. isReleasedTarget (TargetRole t)
                \<and> targetKey t = (SignedTag row, Digest row))
        \<and> Signers row =
            (if delegatedSigners ts (SignedTag row, Digest row) = [] then [releasedRoleName]
             else delegatedSigners ts (SignedTag row, Digest row))"
    by (rule conjunct1)
  from a have signers: "\<forall>signer\<in>set (RepoSigners (fst (GetSignedMetadata (\<lambda>a b. a < b) demoRepo ''v1''))).
      \<exists>r\<in>set (fst (GetDelegationRoles demoRepo)).
         RoleName r \<noteq> CanonicalTargetsRole \<and> RoleName r \<noteq> ReleasesRole
       \<and> Name signer = TrimPrefix (RoleName r) ''targets/''
       \<and> Keys signer = toKeys (KeyIDs r)"
    by (rule conjunct2)
  from bspec [OF rows m1] have r1:
    "\<exists>ts. GetAllTargetMetadataByName demoRepo ''v1'' = Inr ts
        \<and> (\<exists>t\<in>set ts. isReleasedTarget (TargetRole t) \<and> targetKey t = (''v2'', ''12''))
        \<and> [''Repo Admin''] =
            (if delegatedSigners ts (''v2'', ''12'') = [] then [releasedRoleName]
             else delegatedSigners ts (''v2'', ''12''))"
    by (simp split del: if_split cong: if_cong)
  from bspec [OF signers m3] have s1:
    "\<exists>r\<in>set (fst (GetDelegationRoles demoRepo)).
         RoleName r \<noteq> CanonicalTargetsRole \<and> RoleName r \<noteq> ReleasesRole
       \<and> ''alice'' = TrimPrefix (RoleName r) ''targets/''
       \<and> [\<lparr>ID = ''alice-key''\<rparr>] = toKeys (KeyIDs r)"
    by simp
  from m1 r1 m3 s1 show ?thesis by (intro conjI)
qed

end
